theory Spec2Isabelle
  imports Complex_Main "HOL-Library.Word" "HOL-Library.Sublist"
begin

section \<open>Crafty API: the product catalogue of \<^verbatim>\<open>src/main.py\<close>\<close>

text \<open>
  The handlers of \<^verbatim>\<open>main.py\<close> are embedded as functions over an explicit document
  store. Python strings are \<open>string\<close> (ASCII), a Python float is the real it denotes
  (\<^verbatim>\<open>float\<close> of an integer rounds to the nearest double, see \<open>float_of_int\<close>), an
  exception is the left summand of a result.
\<close>

subsection \<open>Strings and bytes\<close>

text \<open>Case folding, on the letters of ASCII.\<close>

definition to_lower :: "char \<Rightarrow> char" where
  "to_lower c =
     (case map_of (zip ''ABCDEFGHIJKLMNOPQRSTUVWXYZ'' ''abcdefghijklmnopqrstuvwxyz'') c of
        None \<Rightarrow> c
      | Some l \<Rightarrow> l)"

definition lower :: "string \<Rightarrow> string" where
  "lower s = map to_lower s"

definition newline :: char where
  "newline = CHR 0x0A"

type_synonym byte = "8 word"

text \<open>\<^verbatim>\<open>Py_ISSPACE\<close>: space, tab, line feed, vertical tab, form feed, carriage return.\<close>

definition is_space :: "char \<Rightarrow> bool" where
  "is_space c = (let n = (of_char c :: nat) in n = 32 \<or> (9 \<le> n \<and> n \<le> 13))"

text \<open>The value of a hexadecimal digit, in either case.\<close>

definition hex_val :: "char \<Rightarrow> nat option" where
  "hex_val c = (let n = (of_char c :: nat) in
     if 48 \<le> n \<and> n \<le> 57 then Some (n - 48)
     else if 97 \<le> n \<and> n \<le> 102 then Some (n - 87)
     else if 65 \<le> n \<and> n \<le> 70 then Some (n - 55)
     else None)"

definition hex_digit :: "nat \<Rightarrow> char" where
  "hex_digit n = ''0123456789abcdef'' ! n"

text \<open>
  \<^verbatim>\<open>bytes.fromhex\<close>: white space is skipped before each byte, a byte is two adjacent
  hexadecimal digits, anything else raises \<^verbatim>\<open>ValueError\<close> (here \<open>None\<close>).
\<close>

fun fromhex :: "string \<Rightarrow> byte list option" where
  "fromhex [] = Some []"
| "fromhex [c] = (if is_space c then Some [] else None)"
| "fromhex (c # d # ds) =
     (if is_space c then fromhex (d # ds)
      else case (hex_val c, hex_val d) of
             (Some h, Some l) \<Rightarrow> map_option ((#) (word_of_nat (16 * h + l))) (fromhex ds)
           | _ \<Rightarrow> None)"

text \<open>\<^verbatim>\<open>binascii.hexlify\<close>: two lower-case digits for each byte.\<close>

fun hexlify :: "byte list \<Rightarrow> string" where
  "hexlify [] = []"
| "hexlify (b # bs) = hex_digit (unat b div 16) # hex_digit (unat b mod 16) # hexlify bs"

subsection \<open>Exceptions and responses\<close>

datatype pyexc =
    ValueError | TypeError | KeyError | OverflowError | ValidationError | InvalidId
  | ServerSelectionTimeoutError | DuplicateKeyError

text \<open>The \<^verbatim>\<open>detail\<close> of an \<^verbatim>\<open>HTTPException\<close>: a literal text, or \<^verbatim>\<open>str(e)\<close>.\<close>

datatype detail = Text string | StrOf pyexc

text \<open>
  What a request ends with when it does not return a value: an \<^verbatim>\<open>HTTPException\<close>
  raised by the handler, the rejection of the declared parameters by the framework
  before the handler runs, or an exception that leaves the handler uncaught.
\<close>

datatype failure =
    HTTPException nat detail
  | RequestValidationError
  | Uncaught pyexc

fun status_code :: "failure \<Rightarrow> nat" where
  "status_code (HTTPException c d) = c"
| "status_code RequestValidationError = 422"
| "status_code (Uncaught e) = 500"

definition client_error :: "failure \<Rightarrow> bool" where
  "client_error f = (400 \<le> status_code f \<and> status_code f < 500)"

subsection \<open>Documents and the store\<close>

type_synonym oid = "byte list"

datatype bson = VStr string | VInt int | VFloat real | VBool bool | VNull

text \<open>
  A stored document: the \<^verbatim>\<open>_id\<close> entry, an ObjectId when there is one, and the other
  entries in order.
\<close>

record doc =
  doc_id :: "oid option"
  entries :: "(string \<times> bson) list"

definition get :: "doc \<Rightarrow> string \<Rightarrow> bson option" where
  "get d k = map_of (entries d) k"

text \<open>
  The store behind the handle \<^verbatim>\<open>db\<close>: its collections by name, the counter the next
  identifier is made from, and whether the server is out of reach (every operation
  then raises). The handle itself is \<open>mongo option\<close>: \<open>None\<close> when the store was never
  configured.
\<close>

record mongo =
  collections :: "string \<Rightarrow> doc list"
  oid_counter :: nat
  down :: bool

subsection \<open>Regular expressions of the store\<close>

text \<open>
  The fragment of the store's regular expressions that is modelled: an optional \<open>^\<close> in
  front, a sequence of literal characters and dots, an optional \<open>$\<close> at the end. A dot
  is any character but a line feed; \<open>$\<close> is the end of the subject or the place before a
  line feed that ends it. A pattern with any other metacharacter is outside the
  fragment (\<open>None\<close>).
\<close>

datatype atom = Lit char | AnyChar

record regex =
  anchored_start :: bool
  atoms :: "atom list"
  anchored_end :: bool

definition metachars :: "char list" where
  "metachars = [CHR 0x5C, CHR ''^'', CHR ''$'', CHR ''.'', CHR ''['', CHR ''|'',
                CHR ''('', CHR '')'', CHR ''?'', CHR ''*'', CHR ''+'', CHR ''{'']"

fun parse_atoms :: "string \<Rightarrow> atom list option" where
  "parse_atoms [] = Some []"
| "parse_atoms (c # cs) =
     (if c = CHR ''.'' then map_option ((#) AnyChar) (parse_atoms cs)
      else if c \<in> set metachars then None
      else map_option ((#) (Lit c)) (parse_atoms cs))"

definition compile_regex :: "string \<Rightarrow> regex option" where
  "compile_regex p =
     (let a = (p \<noteq> [] \<and> hd p = CHR ''^'');
          p1 = (if a then tl p else p);
          e = (p1 \<noteq> [] \<and> last p1 = CHR ''$'');
          p2 = (if e then butlast p1 else p1)
      in map_option (\<lambda>as. \<lparr>anchored_start = a, atoms = as, anchored_end = e\<rparr>) (parse_atoms p2))"

fun atom_matches :: "bool \<Rightarrow> atom \<Rightarrow> char \<Rightarrow> bool" where
  "atom_matches ci (Lit c) x = (if ci then to_lower c = to_lower x else c = x)"
| "atom_matches ci AnyChar x = (x \<noteq> newline)"

fun match_here :: "bool \<Rightarrow> atom list \<Rightarrow> bool \<Rightarrow> string \<Rightarrow> bool" where
  "match_here ci [] e s = (\<not> e \<or> s = [] \<or> s = [newline])"
| "match_here ci (a # as) e [] = False"
| "match_here ci (a # as) e (x # xs) = (atom_matches ci a x \<and> match_here ci as e xs)"

fun match_anywhere :: "bool \<Rightarrow> atom list \<Rightarrow> bool \<Rightarrow> string \<Rightarrow> bool" where
  "match_anywhere ci as e [] = match_here ci as e []"
| "match_anywhere ci as e (x # xs) = (match_here ci as e (x # xs) \<or> match_anywhere ci as e xs)"

definition regex_search :: "regex \<Rightarrow> bool \<Rightarrow> string \<Rightarrow> bool" where
  "regex_search r ci s =
     (if anchored_start r then match_here ci (atoms r) (anchored_end r) s
      else match_anywhere ci (atoms r) (anchored_end r) s)"

subsection \<open>Filters\<close>

text \<open>
  The filter dictionaries the handlers build: a condition on one field is
  \<^verbatim>\<open>{"$regex": p, "$options": o}\<close>, \<^verbatim>\<open>{"$gte": lo, "$lte": hi}\<close> with either key
  possibly missing, or a plain value; a filter is a list of clauses, one per key, that
  must all hold.
\<close>

datatype condition =
    Regex string string
  | Range "real option" "real option"
  | Equals bson

datatype clause =
    Or "(string \<times> condition) list"
  | Field string condition
  | IdIs oid

type_synonym filter = "clause list"

definition num_of :: "bson \<Rightarrow> real option" where
  "num_of v = (case v of VInt n \<Rightarrow> Some (real_of_int n) | VFloat r \<Rightarrow> Some r | _ \<Rightarrow> None)"

fun bson_equal :: "bson \<Rightarrow> bson \<Rightarrow> bool" where
  "bson_equal v w = (case (num_of v, num_of w) of (Some a, Some b) \<Rightarrow> a = b | _ \<Rightarrow> v = w)"

text \<open>
  A regular expression holds of string values only, a comparison with a number of
  numeric values only; a field that is missing satisfies neither.
\<close>

fun cond_holds :: "condition \<Rightarrow> bson option \<Rightarrow> bool" where
  "cond_holds (Regex p opts) v =
     (case (compile_regex p, v) of
        (Some r, Some (VStr s)) \<Rightarrow> regex_search r (CHR ''i'' \<in> set opts) s
      | _ \<Rightarrow> False)"
| "cond_holds (Range lo hi) v =
     (case (case v of None \<Rightarrow> None | Some w \<Rightarrow> num_of w) of
        None \<Rightarrow> False
      | Some x \<Rightarrow> (case lo of None \<Rightarrow> True | Some l \<Rightarrow> l \<le> x) \<and>
                  (case hi of None \<Rightarrow> True | Some h \<Rightarrow> x \<le> h))"
| "cond_holds (Equals w) v = (case v of None \<Rightarrow> w = VNull | Some u \<Rightarrow> bson_equal u w)"

fun clause_holds :: "clause \<Rightarrow> doc \<Rightarrow> bool" where
  "clause_holds (Or alts) d = list_ex (\<lambda>(k, c). cond_holds c (get d k)) alts"
| "clause_holds (Field k c) d = cond_holds c (get d k)"
| "clause_holds (IdIs i) d = (doc_id d = Some i)"

definition matches :: "filter \<Rightarrow> doc \<Rightarrow> bool" where
  "matches f d = list_all (\<lambda>c. clause_holds c d) f"

fun cond_supported :: "condition \<Rightarrow> bool" where
  "cond_supported (Regex p opts) = (compile_regex p \<noteq> None)"
| "cond_supported (Range lo hi) = True"
| "cond_supported (Equals w) = True"

fun clause_supported :: "clause \<Rightarrow> bool" where
  "clause_supported (Or alts) = list_all (\<lambda>(k, c). cond_supported c) alts"
| "clause_supported (Field k c) = cond_supported c"
| "clause_supported (IdIs i) = True"

definition supported :: "filter \<Rightarrow> bool" where
  "supported f = list_all clause_supported f"

text \<open>\<^verbatim>\<open>db[coll].find_one(f)\<close>: the first document of the collection that matches.\<close>

definition find_one :: "mongo \<Rightarrow> string \<Rightarrow> filter \<Rightarrow> pyexc + doc option" where
  "find_one s coll f =
     (if down s then Inl ServerSelectionTimeoutError
      else Inr (List.find (matches f) (collections s coll)))"

text \<open>
  Modelled from the spec: \<^verbatim>\<open>get_documents\<close> of \<^verbatim>\<open>database.py\<close>, which is not among
  the sources. The store executes the filter and returns the matching records in its
  own order, at most \<open>limit\<close> of them. The outer \<open>None\<close> is a filter whose regular
  expression is outside the modelled fragment.
\<close>

definition get_documents :: "mongo \<Rightarrow> string \<Rightarrow> filter \<Rightarrow> nat \<Rightarrow> (pyexc + doc list) option" where
  "get_documents s coll f limit =
     (if down s then Some (Inl ServerSelectionTimeoutError)
      else if \<not> supported f then None
      else Some (Inr (take limit (filter (matches f) (collections s coll)))))"

subsection \<open>Identifiers\<close>

text \<open>
  \<^verbatim>\<open>ObjectId(s)\<close> of the driver: a string of 24 characters that \<^verbatim>\<open>bytes.fromhex\<close>
  accepts, \<^verbatim>\<open>InvalidId\<close> otherwise; \<^verbatim>\<open>str\<close> of an ObjectId is its bytes in
  hexadecimal.
\<close>

definition ObjectId :: "string \<Rightarrow> pyexc + oid" where
  "ObjectId s =
     (if length s = 24
      then (case fromhex s of None \<Rightarrow> Inl InvalidId | Some bs \<Rightarrow> Inr bs)
      else Inl InvalidId)"

definition str_oid :: "oid \<Rightarrow> string" where
  "str_oid i = hexlify i"

subsection \<open>The read path: \<^verbatim>\<open>ProductOut\<close>\<close>

record ProductOut =
  out_id :: string
  out_name :: string
  out_description :: "string option"
  out_price :: real
  out_category :: string
  out_location :: "string option"
  out_image :: "string option"
  out_in_stock :: bool

text \<open>The number of binary digits of a natural number.\<close>

fun bit_length :: "nat \<Rightarrow> nat" where
  "bit_length n = (if n = 0 then 0 else Suc (bit_length (n div 2)))"

text \<open>
  \<^verbatim>\<open>float(n)\<close> of an integer: exact up to \<open>2^53\<close> in magnitude; beyond, the 53 leading
  binary digits rounded to nearest, ties to even; \<^verbatim>\<open>OverflowError\<close> from
  \<open>2^1024 - 2^970\<close> on, where rounding reaches \<open>2^1024\<close>.
\<close>

definition float_of_int :: "int \<Rightarrow> pyexc + real" where
  "float_of_int n =
     (let m = nat \<bar>n\<bar> in
      if m \<le> 2 ^ 53 then Inr (real_of_int n)
      else if 2 ^ 1024 - 2 ^ 970 \<le> m then Inl OverflowError
      else let e = bit_length m - 53; q = m div 2 ^ e; r = m mod 2 ^ e;
               q' = (if 2 ^ e < 2 * r \<or> (2 * r = 2 ^ e \<and> odd q) then q + 1 else q)
           in Inr (real_of_int (sgn n) * real (q' * 2 ^ e)))"

text \<open>
  \<^verbatim>\<open>float(v)\<close>. What \<^verbatim>\<open>float\<close> makes of a string is a parameter \<open>fs\<close> (\<open>None\<close> is
  \<^verbatim>\<open>ValueError\<close>): nothing below depends on it.
\<close>

fun py_float :: "(string \<Rightarrow> real option) \<Rightarrow> bson \<Rightarrow> pyexc + real" where
  "py_float fs (VInt n) = float_of_int n"
| "py_float fs (VFloat r) = Inr r"
| "py_float fs (VBool b) = Inr (if b then 1 else 0)"
| "py_float fs (VStr s) = (case fs s of None \<Rightarrow> Inl ValueError | Some r \<Rightarrow> Inr r)"
| "py_float fs VNull = Inl TypeError"

text \<open>\<^verbatim>\<open>bool(v)\<close>: Python's truth value.\<close>

fun py_bool :: "bson \<Rightarrow> bool" where
  "py_bool (VStr s) = (s \<noteq> [])"
| "py_bool (VInt n) = (n \<noteq> 0)"
| "py_bool (VFloat r) = (r \<noteq> 0)"
| "py_bool (VBool b) = b"
| "py_bool VNull = False"

text \<open>\<^verbatim>\<open>d.get(k, default)\<close>.\<close>

definition get_or :: "doc \<Rightarrow> string \<Rightarrow> bson \<Rightarrow> bson" where
  "get_or d k dflt = (case get d k of None \<Rightarrow> dflt | Some v \<Rightarrow> v)"

text \<open>
  The fields of \<^verbatim>\<open>ProductOut\<close> as the model validates them: a \<^verbatim>\<open>str\<close> field takes
  a string, an \<^verbatim>\<open>Optional[str]\<close> field a string or \<^verbatim>\<open>None\<close>.
\<close>

fun str_field :: "bson \<Rightarrow> string option" where
  "str_field (VStr s) = Some s"
| "str_field v = None"

fun opt_str_field :: "bson option \<Rightarrow> string option option" where
  "opt_str_field None = Some None"
| "opt_str_field (Some VNull) = Some None"
| "opt_str_field (Some (VStr s)) = Some (Some s)"
| "opt_str_field (Some v) = None"

definition ProductOut_init ::
  "string \<Rightarrow> bson \<Rightarrow> bson option \<Rightarrow> real \<Rightarrow> bson \<Rightarrow> bson option \<Rightarrow> bson option \<Rightarrow> bool
     \<Rightarrow> pyexc + ProductOut" where
  "ProductOut_init i n d p c l im st =
     (case (str_field n, opt_str_field d, str_field c, opt_str_field l, opt_str_field im) of
        (Some n', Some d', Some c', Some l', Some im') \<Rightarrow>
          Inr \<lparr>out_id = i, out_name = n', out_description = d', out_price = p,
               out_category = c', out_location = l', out_image = im', out_in_stock = st\<rparr>
      | _ \<Rightarrow> Inl ValidationError)"

text \<open>
  The call \<^verbatim>\<open>ProductOut(id=..., name=d.get("name", ""), ...)\<close> of both handlers, for a
  given \<^verbatim>\<open>id\<close> argument: \<^verbatim>\<open>float\<close> runs while the arguments are evaluated, before
  the model validates them.
\<close>

definition product_out :: "(string \<Rightarrow> real option) \<Rightarrow> string \<Rightarrow> doc \<Rightarrow> pyexc + ProductOut" where
  "product_out fs i d =
     (case py_float fs (get_or d ''price'' (VInt 0)) of
        Inl e \<Rightarrow> Inl e
      | Inr p \<Rightarrow>
          ProductOut_init i (get_or d ''name'' (VStr [])) (get d ''description'') p
            (get_or d ''category'' (VStr [])) (get d ''location'') (get d ''image'')
            (py_bool (get_or d ''in_stock'' (VBool True))))"

text \<open>
  \<^verbatim>\<open>d_id = str(d.get("_id")) if d.get("_id") else None\<close>, then \<^verbatim>\<open>id=d_id or ""\<close>
  (lines 111 and 113).
\<close>

definition listed_id :: "doc \<Rightarrow> string" where
  "listed_id d =
     (let d_id = (case doc_id d of Some i \<Rightarrow> Some (str_oid i) | None \<Rightarrow> None)
      in case d_id of None \<Rightarrow> [] | Some s \<Rightarrow> (if s = [] then [] else s))"

text \<open>\<^verbatim>\<open>id=str(doc.get("_id"))\<close> (line 135).\<close>

definition single_id :: "doc \<Rightarrow> string" where
  "single_id d = (case doc_id d of Some i \<Rightarrow> str_oid i | None \<Rightarrow> ''None'')"

text \<open>The loop of lines 110 to 121: the first exception ends it.\<close>

fun project_all :: "(string \<Rightarrow> real option) \<Rightarrow> doc list \<Rightarrow> pyexc + ProductOut list" where
  "project_all fs [] = Inr []"
| "project_all fs (d # ds) =
     (case product_out fs (listed_id d) d of
        Inl e \<Rightarrow> Inl e
      | Inr p \<Rightarrow> (case project_all fs ds of Inl e \<Rightarrow> Inl e | Inr ps \<Rightarrow> Inr (p # ps)))"

subsection \<open>\<^verbatim>\<open>list_products\<close>\<close>

text \<open>
  The declared constraints of the query parameters (lines 83 to 85):
  \<^verbatim>\<open>ge=0\<close> on both prices, \<^verbatim>\<open>ge=1, le=100\<close> on the limit.
\<close>

definition query_valid :: "real option \<Rightarrow> real option \<Rightarrow> int \<Rightarrow> bool" where
  "query_valid min_price max_price limit =
     ((case min_price of None \<Rightarrow> True | Some x \<Rightarrow> 0 \<le> x) \<and>
      (case max_price of None \<Rightarrow> True | Some x \<Rightarrow> 0 \<le> x) \<and>
      1 \<le> limit \<and> limit \<le> 100)"

text \<open>
  Lines 90 to 106: the filter, its keys in the order they are set. \<^verbatim>\<open>if q:\<close> holds
  of a string that is neither \<^verbatim>\<open>None\<close> nor empty.
\<close>

definition filter_q :: "string option \<Rightarrow> string option \<Rightarrow> real option \<Rightarrow> real option \<Rightarrow> filter" where
  "filter_q q category min_price max_price =
     (case q of
        Some s \<Rightarrow>
          if s \<noteq> []
          then [Or [(''name'', Regex s ''i''),
                    (''description'', Regex s ''i''),
                    (''category'', Regex s ''i''),
                    (''location'', Regex s ''i'')]]
          else []
      | None \<Rightarrow> []) @
     (case category of
        Some c \<Rightarrow>
          if c \<noteq> [] then [Field ''category'' (Regex (''^'' @ c @ ''$'') ''i'')] else []
      | None \<Rightarrow> []) @
     (if min_price \<noteq> None \<or> max_price \<noteq> None
      then [Field ''price'' (Range min_price max_price)]
      else [])"

text \<open>
  The handler. The framework checks the declared parameters before it runs the body;
  an omitted \<^verbatim>\<open>limit\<close> is 40. The outer \<open>None\<close> is that of \<open>get_documents\<close>.
\<close>

definition list_products ::
  "(string \<Rightarrow> real option) \<Rightarrow> mongo option \<Rightarrow> string option \<Rightarrow> string option \<Rightarrow>
     real option \<Rightarrow> real option \<Rightarrow> int option \<Rightarrow> (failure + ProductOut list) option" where
  "list_products fs db q category min_price max_price limit_param =
     (let limit = (case limit_param of None \<Rightarrow> 40 | Some l \<Rightarrow> l) in
      if \<not> query_valid min_price max_price limit then Some (Inl RequestValidationError)
      else case db of
        None \<Rightarrow> Some (Inl (HTTPException 500 (Text ''Database not available'')))
      | Some s \<Rightarrow>
          (case get_documents s ''product'' (filter_q q category min_price max_price) (nat limit) of
             None \<Rightarrow> None
           | Some (Inl e) \<Rightarrow> Some (Inl (Uncaught e))
           | Some (Inr docs) \<Rightarrow>
               (case project_all fs docs of
                  Inl e \<Rightarrow> Some (Inl (Uncaught e))
                | Inr out \<Rightarrow> Some (Inr out))))"

subsection \<open>\<^verbatim>\<open>get_product\<close>\<close>

text \<open>\<^verbatim>\<open>not doc\<close> holds of \<^verbatim>\<open>None\<close> and of a dictionary with no entry.\<close>

definition is_empty :: "doc \<Rightarrow> bool" where
  "is_empty d = (doc_id d = None \<and> entries d = [])"


definition get_product ::
  "(string \<Rightarrow> real option) \<Rightarrow> mongo option \<Rightarrow> string \<Rightarrow> failure + ProductOut" where
  "get_product fs db product_id =
     (case db of
        None \<Rightarrow> Inl (HTTPException 500 (Text ''Database not available''))
      | Some s \<Rightarrow>
          (case (case ObjectId product_id of
                   Inl e \<Rightarrow> Inl e
                 | Inr i \<Rightarrow> find_one s ''product'' [IdIs i]) of
             Inl e \<Rightarrow> Inl (HTTPException 400 (Text ''Invalid product id''))
           | Inr None \<Rightarrow> Inl (HTTPException 404 (Text ''Product not found''))
           | Inr (Some doc) \<Rightarrow>
               if is_empty doc then Inl (HTTPException 404 (Text ''Product not found''))
               else (case product_out fs (single_id doc) doc of
                       Inl e \<Rightarrow> Inl (Uncaught e)
                     | Inr p \<Rightarrow> Inr p)))"

subsection \<open>The write path\<close>

text \<open>
  Modelled from the spec: the \<^verbatim>\<open>Product\<close> schema of \<^verbatim>\<open>schemas.py\<close>, which is not
  among the sources. Name, price and category are required, the price is a
  non-negative number held as a float, \<^verbatim>\<open>in_stock\<close> is true when absent, the other
  fields are strings or absent.
\<close>

record Product =
  p_name :: string
  p_description :: "string option"
  p_price :: real
  p_category :: string
  p_location :: "string option"
  p_image :: "string option"
  p_in_stock :: bool

type_synonym payload = "(string \<times> bson) list"

fun opt_bool_field :: "bson option \<Rightarrow> bool option" where
  "opt_bool_field None = Some True"
| "opt_bool_field (Some (VBool b)) = Some b"
| "opt_bool_field (Some v) = None"

definition price_field :: "bson option \<Rightarrow> real option" where
  "price_field v =
     (case (case v of None \<Rightarrow> None | Some w \<Rightarrow> num_of w) of
        None \<Rightarrow> None
      | Some x \<Rightarrow> if 0 \<le> x then Some x else None)"

definition req_str_field :: "bson option \<Rightarrow> string option" where
  "req_str_field v = (case v of None \<Rightarrow> None | Some w \<Rightarrow> str_field w)"

text \<open>\<^verbatim>\<open>Product(**p)\<close>: the payload validated into a \<^verbatim>\<open>Product\<close>.\<close>

definition Product_init :: "payload \<Rightarrow> pyexc + Product" where
  "Product_init p =
     (case (req_str_field (map_of p ''name''), opt_str_field (map_of p ''description''),
            price_field (map_of p ''price''), req_str_field (map_of p ''category''),
            opt_str_field (map_of p ''location''), opt_str_field (map_of p ''image''),
            opt_bool_field (map_of p ''in_stock'')) of
        (Some n, Some d, Some pr, Some c, Some l, Some im, Some st) \<Rightarrow>
          Inr \<lparr>p_name = n, p_description = d, p_price = pr, p_category = c,
               p_location = l, p_image = im, p_in_stock = st\<rparr>
      | _ \<Rightarrow> Inl ValidationError)"

definition opt_str_value :: "string option \<Rightarrow> bson" where
  "opt_str_value x = (case x of None \<Rightarrow> VNull | Some s \<Rightarrow> VStr s)"

text \<open>The record a \<^verbatim>\<open>Product\<close> is stored as: its fields under their names.\<close>

definition model_dump :: "Product \<Rightarrow> (string \<times> bson) list" where
  "model_dump p =
     [(''name'', VStr (p_name p)),
      (''description'', opt_str_value (p_description p)),
      (''price'', VFloat (p_price p)),
      (''category'', VStr (p_category p)),
      (''location'', opt_str_value (p_location p)),
      (''image'', opt_str_value (p_image p)),
      (''in_stock'', VBool (p_in_stock p))]"

text \<open>
  The identifier the store assigns: twelve bytes made from its counter, most
  significant first.
\<close>

definition new_oid :: "nat \<Rightarrow> oid" where
  "new_oid n = map (\<lambda>i. word_of_nat (n div 256 ^ (11 - i))) [0..<12]"

text \<open>
  \<^verbatim>\<open>insert_one\<close>: the record is appended under a new identifier; an identifier that
  is already in the collection is refused with \<^verbatim>\<open>DuplicateKeyError\<close>.
\<close>

definition insert_one :: "mongo \<Rightarrow> string \<Rightarrow> (string \<times> bson) list \<Rightarrow> (pyexc + oid) \<times> mongo" where
  "insert_one s coll es =
     (if down s then (Inl ServerSelectionTimeoutError, s)
      else let i = new_oid (oid_counter s); s' = s\<lparr>oid_counter := Suc (oid_counter s)\<rparr> in
        if list_ex (\<lambda>d. doc_id d = Some i) (collections s coll) then (Inl DuplicateKeyError, s')
        else (Inr i, s'\<lparr>collections := (collections s)
                (coll := collections s coll @ [\<lparr>doc_id = Some i, entries = es\<rparr>])\<rparr>))"

text \<open>
  Modelled from the spec: \<^verbatim>\<open>create_document\<close> of \<^verbatim>\<open>database.py\<close>, which is not
  among the sources. It inserts the payload into the store and returns the newly
  assigned identifier as a string.
\<close>

definition create_document :: "mongo \<Rightarrow> string \<Rightarrow> Product \<Rightarrow> (pyexc + string) \<times> mongo" where
  "create_document s coll p =
     (case insert_one s coll (model_dump p) of
        (Inl e, s') \<Rightarrow> (Inl e, s')
      | (Inr i, s') \<Rightarrow> (Inr (str_oid i), s'))"

text \<open>
  \<^verbatim>\<open>create_product\<close>. The framework validates the body against \<^verbatim>\<open>ProductCreate\<close>,
  which adds nothing to \<^verbatim>\<open>Product\<close>, before the handler runs.
\<close>

definition create_product :: "mongo option \<Rightarrow> payload \<Rightarrow> (failure + string) \<times> mongo option" where
  "create_product db body =
     (case Product_init body of
        Inl e \<Rightarrow> (Inl RequestValidationError, db)
      | Inr payload \<Rightarrow>
          (case db of
             None \<Rightarrow> (Inl (HTTPException 500 (Text ''Database not available'')), db)
           | Some s \<Rightarrow>
               (case create_document s ''product'' payload of
                  (Inl e, s') \<Rightarrow> (Inl (HTTPException 400 (StrOf e)), Some s')
                | (Inr new_id, s') \<Rightarrow> (Inr new_id, Some s'))))"

subsection \<open>\<^verbatim>\<open>seed_products\<close>\<close>




subsection \<open>What the specification says of a record\<close>

text \<open>
  The criteria of the specification, in its own words, to be compared with what the
  filter built by \<open>filter_q\<close> selects.
\<close>

definition ci_substring :: "string \<Rightarrow> string \<Rightarrow> bool" where
  "ci_substring q s = sublist (lower q) (lower s)"

definition ci_equal :: "string \<Rightarrow> string \<Rightarrow> bool" where
  "ci_equal c s = (lower c = lower s)"

definition text_of :: "doc \<Rightarrow> string \<Rightarrow> string option" where
  "text_of d k = (case get d k of Some (VStr s) \<Rightarrow> Some s | _ \<Rightarrow> None)"

text \<open>The term occurs in the name, the description, the category or the location.\<close>

definition q_occurs :: "string \<Rightarrow> doc \<Rightarrow> bool" where
  "q_occurs q d =
     list_ex (\<lambda>k. case text_of d k of Some s \<Rightarrow> ci_substring q s | None \<Rightarrow> False)
       [''name'', ''description'', ''category'', ''location'']"

text \<open>The category equals the given one, case-insensitively.\<close>

definition category_is :: "string \<Rightarrow> doc \<Rightarrow> bool" where
  "category_is c d = (case text_of d ''category'' of Some s \<Rightarrow> ci_equal c s | None \<Rightarrow> False)"

text \<open>The same, or the given one followed by a final line feed.\<close>

definition category_is_or_line :: "string \<Rightarrow> doc \<Rightarrow> bool" where
  "category_is_or_line c d =
     (case text_of d ''category'' of
        Some s \<Rightarrow> ci_equal c s \<or> ci_equal (c @ [newline]) s
      | None \<Rightarrow> False)"

text \<open>The stored price, when it is a number.\<close>

definition price_of :: "doc \<Rightarrow> real option" where
  "price_of d = (case get d ''price'' of None \<Rightarrow> None | Some v \<Rightarrow> num_of v)"

definition price_at_least :: "real \<Rightarrow> doc \<Rightarrow> bool" where
  "price_at_least lo d = (case price_of d of None \<Rightarrow> False | Some p \<Rightarrow> lo \<le> p)"

definition price_at_most :: "real \<Rightarrow> doc \<Rightarrow> bool" where
  "price_at_most hi d = (case price_of d of None \<Rightarrow> False | Some p \<Rightarrow> p \<le> hi)"

definition price_between :: "real \<Rightarrow> real \<Rightarrow> doc \<Rightarrow> bool" where
  "price_between lo hi d = (case price_of d of None \<Rightarrow> False | Some p \<Rightarrow> lo \<le> p \<and> p \<le> hi)"



text \<open>A string with no metacharacter of the store's regular expressions.\<close>

definition literal :: "string \<Rightarrow> bool" where
  "literal s = list_all (\<lambda>c. c \<notin> set metachars) s"

text \<open>The response for the records the store selected.\<close>

definition respond :: "(string \<Rightarrow> real option) \<Rightarrow> doc list \<Rightarrow> (failure + ProductOut list) option" where
  "respond fs ds =
     (case project_all fs ds of Inl e \<Rightarrow> Some (Inl (Uncaught e)) | Inr out \<Rightarrow> Some (Inr out))"

text \<open>
  The types of the data model, for the fields a record has: a string; a string or
  null; a number \<^verbatim>\<open>float\<close> accepts (a 64-bit integer, a double, a boolean, or a string
  it parses).
\<close>

fun is_str :: "bson \<Rightarrow> bool" where
  "is_str (VStr s) = True"
| "is_str v = False"

fun is_opt_str :: "bson \<Rightarrow> bool" where
  "is_opt_str (VStr s) = True"
| "is_opt_str VNull = True"
| "is_opt_str v = False"

fun is_number :: "(string \<Rightarrow> real option) \<Rightarrow> bson \<Rightarrow> bool" where
  "is_number fs (VInt n) = (- (2 ^ 63) \<le> n \<and> n < 2 ^ 63)"
| "is_number fs (VFloat r) = True"
| "is_number fs (VBool b) = True"
| "is_number fs (VStr s) = (fs s \<noteq> None)"
| "is_number fs VNull = False"

text \<open>The field is missing, or has the type.\<close>

definition absent_or :: "(bson \<Rightarrow> bool) \<Rightarrow> bson option \<Rightarrow> bool" where
  "absent_or ok v = (case v of None \<Rightarrow> True | Some w \<Rightarrow> ok w)"

text \<open>A record whose present fields have the types of the data model.\<close>

definition typed_fields :: "(string \<Rightarrow> real option) \<Rightarrow> doc \<Rightarrow> bool" where
  "typed_fields fs d =
     (absent_or is_str (get d ''name'') \<and>
      absent_or is_opt_str (get d ''description'') \<and>
      absent_or (is_number fs) (get d ''price'') \<and>
      absent_or is_str (get d ''category'') \<and>
      absent_or is_opt_str (get d ''location'') \<and>
      absent_or is_opt_str (get d ''image''))"

text \<open>The record without the field \<open>k\<close>.\<close>

definition without :: "string \<Rightarrow> doc \<Rightarrow> doc" where
  "without k d = d\<lparr>entries := filter (\<lambda>e. fst e \<noteq> k) (entries d)\<rparr>"

subsection \<open>Sample states\<close>

text \<open>A \<^verbatim>\<open>float\<close> that accepts no string, for the examples.\<close>

definition refuse_str :: "string \<Rightarrow> real option" where
  "refuse_str s = None"

definition vase_id :: oid where
  "vase_id = new_oid 1"

definition basket_id :: oid where
  "basket_id = new_oid 2"

definition vase_doc :: doc where
  "vase_doc = \<lparr>doc_id = Some vase_id,
      entries = [(''name'', VStr ''Terracotta Vase''), (''price'', VInt 1299),
                 (''category'', VStr ''Ceramics'')]\<rparr>"

definition basket_doc :: doc where
  "basket_doc = \<lparr>doc_id = Some basket_id,
      entries = [(''name'', VStr ''Bamboo Basket''), (''price'', VFloat 899),
                 (''category'', VStr ''Home''), (''location'', VStr ''Assam''),
                 (''in_stock'', VBool False)]\<rparr>"

text \<open>What the read path makes of the two records.\<close>

definition vase_out :: ProductOut where
  "vase_out = \<lparr>out_id = ''000000000000000000000001'', out_name = ''Terracotta Vase'',
     out_description = None, out_price = 1299, out_category = ''Ceramics'',
     out_location = None, out_image = None, out_in_stock = True\<rparr>"

definition basket_out :: ProductOut where
  "basket_out = \<lparr>out_id = ''000000000000000000000002'', out_name = ''Bamboo Basket'',
     out_description = None, out_price = 899, out_category = ''Home'',
     out_location = Some ''Assam'', out_image = None, out_in_stock = False\<rparr>"

definition products_of :: "doc list \<Rightarrow> string \<Rightarrow> doc list" where
  "products_of ds coll = (if coll = ''product'' then ds else [])"

definition empty_store :: mongo where
  "empty_store = \<lparr>collections = products_of [], oid_counter = 0, down = False\<rparr>"

definition demo_store :: mongo where
  "demo_store = \<lparr>collections = products_of [vase_doc, basket_doc], oid_counter = 3, down = False\<rparr>"

text \<open>The payload of the scenario: a vase with an integer price and no \<^verbatim>\<open>in_stock\<close>.\<close>

definition vase_body :: payload where
  "vase_body = [(''name'', VStr ''Terracotta Vase''), (''price'', VInt 1299),
                (''category'', VStr ''Ceramics'')]"

definition vase_product :: Product where
  "vase_product = \<lparr>p_name = ''Terracotta Vase'', p_description = None, p_price = 1299,
     p_category = ''Ceramics'', p_location = None, p_image = None, p_in_stock = True\<rparr>"

definition stored_vase :: doc where
  "stored_vase = \<lparr>doc_id = Some (new_oid 0), entries = model_dump vase_product\<rparr>"

definition vase_store :: mongo where
  "vase_store = \<lparr>collections = products_of [stored_vase], oid_counter = 1, down = False\<rparr>"



text \<open>A record whose price is null, and a store that holds it.\<close>

definition null_doc :: doc where
  "null_doc = \<lparr>doc_id = Some vase_id,
      entries = [(''name'', VStr ''Terracotta Vase''), (''price'', VNull),
                 (''category'', VStr ''Ceramics'')]\<rparr>"

definition null_store :: mongo where
  "null_store = \<lparr>collections = products_of [null_doc], oid_counter = 3, down = False\<rparr>"

text \<open>The same store, out of reach.\<close>

definition down_store :: mongo where
  "down_store = \<lparr>collections = products_of [vase_doc, basket_doc], oid_counter = 3, down = True\<rparr>"

section \<open>Properties\<close>


lemma to_lower_newline: "to_lower x = newline \<longleftrightarrow> x = newline"
  by (simp add: to_lower_def newline_def)

lemma lower_singleton_newline: "lower s = [newline] \<longleftrightarrow> s = [newline]"
  by (cases s) (auto simp: lower_def to_lower_newline)

lemma parse_atoms_literal: "literal s \<Longrightarrow> parse_atoms s = Some (map Lit s)"
  by (induction s) (auto simp: literal_def metachars_def)

lemma literal_hd: "literal s \<Longrightarrow> s \<noteq> [] \<Longrightarrow> hd s \<noteq> CHR ''^''"
  by (cases s) (auto simp: literal_def metachars_def)

lemma literal_last: "literal s \<Longrightarrow> s \<noteq> [] \<Longrightarrow> last s \<noteq> CHR ''$''"
  by (induction s) (auto simp: literal_def metachars_def)

lemma compile_literal:
  "literal s \<Longrightarrow> compile_regex s = Some \<lparr>anchored_start = False, atoms = map Lit s, anchored_end = False\<rparr>"
  by (cases "s = []") (simp_all add: compile_regex_def parse_atoms_literal literal_hd literal_last)

lemma compile_anchored:
  "literal c \<Longrightarrow> compile_regex (''^'' @ c @ ''$'') =
     Some \<lparr>anchored_start = True, atoms = map Lit c, anchored_end = True\<rparr>"
  by (simp add: compile_regex_def parse_atoms_literal)

lemma match_here_prefix:
  "match_here True (map Lit q) False s \<longleftrightarrow> prefix (lower q) (lower s)"
proof (induction q arbitrary: s)
  case Nil
  then show ?case by (simp add: lower_def)
next
  case (Cons a q)
  then show ?case by (cases s) (auto simp: lower_def)
qed

lemma match_anywhere_sublist:
  "match_anywhere True (map Lit q) False s \<longleftrightarrow> sublist (lower q) (lower s)"
proof (induction s)
  case Nil
  then show ?case by (cases q) (simp_all add: lower_def)
next
  case (Cons x s)
  have "sublist (lower q) (lower (x # s)) \<longleftrightarrow>
          prefix (lower q) (lower (x # s)) \<or> sublist (lower q) (lower s)"
    by (simp add: lower_def sublist_Cons_right)
  with Cons show ?case by (simp add: match_here_prefix)
qed

lemma match_here_whole:
  "match_here True (map Lit c) True s \<longleftrightarrow> lower c = lower s \<or> lower (c @ [newline]) = lower s"
proof (induction c arbitrary: s)
  case Nil
  have "lower [newline] = [newline]" by (simp add: lower_singleton_newline)
  then show ?case
    using lower_singleton_newline[of s] by (auto simp: lower_def)
next
  case (Cons a c)
  then show ?case by (cases s) (auto simp: lower_def)
qed

lemma regex_q_holds:
  "literal q \<Longrightarrow> cond_holds (Regex q ''i'') (get d k) \<longleftrightarrow>
     (case text_of d k of Some s \<Rightarrow> ci_substring q s | None \<Rightarrow> False)"
  by (simp add: compile_literal regex_search_def match_anywhere_sublist text_of_def ci_substring_def
        split: option.splits bson.splits)

lemma regex_category_holds:
  "literal c \<Longrightarrow> cond_holds (Regex (''^'' @ c @ ''$'') ''i'') (get d ''category'') \<longleftrightarrow>
     category_is_or_line c d"
  using compile_anchored[of c]
  by (simp add: regex_search_def match_here_whole text_of_def ci_equal_def
        category_is_or_line_def split: option.splits bson.splits)

lemma range_holds:
  "lo \<noteq> None \<or> hi \<noteq> None \<Longrightarrow> cond_holds (Range lo hi) (get d ''price'') \<longleftrightarrow>
     (case lo of None \<Rightarrow> True | Some l \<Rightarrow> price_at_least l d) \<and>
     (case hi of None \<Rightarrow> True | Some h \<Rightarrow> price_at_most h d)"
  by (auto simp: price_at_least_def price_at_most_def price_of_def split: option.splits)


lemma q_clause_holds:
  "literal q \<Longrightarrow>
     clause_holds (Or [(''name'', Regex q ''i''), (''description'', Regex q ''i''),
                       (''category'', Regex q ''i''), (''location'', Regex q ''i'')]) d
       \<longleftrightarrow> q_occurs q d"
  by (simp add: q_occurs_def regex_q_holds del: cond_holds.simps)

lemma matches_q:
  "literal q \<Longrightarrow> q \<noteq> [] \<Longrightarrow> matches (filter_q (Some q) None None None) d \<longleftrightarrow> q_occurs q d"
  using q_clause_holds[of q d] by (simp add: matches_def filter_q_def)

lemma supported_q:
  "literal q \<Longrightarrow> supported (filter_q (Some q) None None None)"
  by (simp add: supported_def filter_q_def compile_literal)

lemma list_products_selected:
  "\<not> down s \<Longrightarrow> supported (filter_q q c lo hi) \<Longrightarrow> query_valid lo hi n \<Longrightarrow>
     list_products fs (Some s) q c lo hi (Some n) =
       respond fs (take (nat n) (filter (matches (filter_q q c lo hi)) (collections s ''product'')))"
  by (simp add: list_products_def get_documents_def respond_def)

text \<open>
  C1, as amended. The term \<open>q\<close> reaches the store as a case-insensitive regular
  expression. For a non-empty term made of literal characters only, the search with
  \<open>q\<close> alone selects a stored record if and only if \<open>q\<close> occurs, case-insensitively,
  as a substring of its name, description, category or location (a field that is
  missing or not a string has no occurrence); the response holds the first \<open>limit\<close>
  selected records.
\<close>

theorem literal_term_search:
  assumes "literal q" and "q \<noteq> []" and "\<not> down s" and "1 \<le> n" and "n \<le> 100"
  shows "list_products fs (Some s) (Some q) None None None (Some n) =
           respond fs (take (nat n) (filter (q_occurs q) (collections s ''product'')))"
proof -
  have "matches (filter_q (Some q) None None None) = q_occurs q"
    using assms(1,2) by (auto simp: fun_eq_iff matches_q)
  moreover have "query_valid None None n"
    using assms(4,5) by (simp add: query_valid_def)
  ultimately show ?thesis
    using assms(1,3) by (simp add: list_products_selected supported_q)
qed

lemma listed_id_vase: "listed_id vase_doc = ''000000000000000000000001''"
  by (simp add: listed_id_def vase_doc_def vase_id_def str_oid_def new_oid_def upt_rec hex_digit_def)

lemma listed_id_basket: "listed_id basket_doc = ''000000000000000000000002''"
  by (simp add: listed_id_def basket_doc_def basket_id_def str_oid_def new_oid_def upt_rec hex_digit_def)

lemma product_out_vase:
  "product_out refuse_str i vase_doc = Inr (vase_out\<lparr>out_id := i\<rparr>)"
  by (simp add: product_out_def vase_doc_def vase_out_def get_or_def get_def ProductOut_init_def
      float_of_int_def)

lemma product_out_basket:
  "product_out refuse_str i basket_doc = Inr (basket_out\<lparr>out_id := i\<rparr>)"
  by (simp add: product_out_def basket_doc_def basket_out_def get_or_def get_def ProductOut_init_def)

lemma vase_out_id: "vase_out\<lparr>out_id := ''000000000000000000000001''\<rparr> = vase_out"
  by (simp add: vase_out_def)

lemma basket_out_id: "basket_out\<lparr>out_id := ''000000000000000000000002''\<rparr> = basket_out"
  by (simp add: basket_out_def)

lemmas demo_out = product_out_vase product_out_basket listed_id_vase listed_id_basket
  vase_out_id basket_out_id

lemma respond_demo:
  "respond refuse_str [vase_doc, basket_doc] = Some (Inr [vase_out, basket_out])"
  by (simp add: respond_def demo_out)

lemma respond_vase:
  "respond refuse_str [vase_doc] = Some (Inr [vase_out])"
  by (simp add: respond_def demo_out)

lemma respond_basket:
  "respond refuse_str [basket_doc] = Some (Inr [basket_out])"
  by (simp add: respond_def demo_out)


lemma collections_demo: "collections demo_store ''product'' = [vase_doc, basket_doc]"
  by (simp add: demo_store_def products_of_def)

lemma not_down_demo: "\<not> down demo_store"
  by (simp add: demo_store_def)

lemma text_vase:
  "text_of vase_doc ''name'' = Some ''Terracotta Vase''"
  "text_of vase_doc ''description'' = None"
  "text_of vase_doc ''category'' = Some ''Ceramics''"
  "text_of vase_doc ''location'' = None"
  by (simp_all add: text_of_def get_def vase_doc_def)

lemma text_basket:
  "text_of basket_doc ''name'' = Some ''Bamboo Basket''"
  "text_of basket_doc ''description'' = None"
  "text_of basket_doc ''category'' = Some ''Home''"
  "text_of basket_doc ''location'' = Some ''Assam''"
  by (simp_all add: text_of_def get_def basket_doc_def)

lemma vase_occurs: "q_occurs ''vase'' vase_doc" 
  by (simp add: q_occurs_def text_vase ci_substring_def lower_def to_lower_def sublist_code)

lemma vase_not_in_basket: "\<not> q_occurs ''vase'' basket_doc" 
  by (simp add: q_occurs_def text_basket ci_substring_def lower_def to_lower_def sublist_code)

text \<open>
  Witness for C1: the term \<open>vase\<close> on the sample store selects the vase and not the
  basket.
\<close>

theorem literal_term_search_witness:
  "literal ''vase'' \<and> ''vase'' \<noteq> [] \<and> \<not> down demo_store \<and> (1::int) \<le> 40 \<and> (40::int) \<le> 100 \<and>
   list_products refuse_str (Some demo_store) (Some ''vase'') None None None (Some 40) =
     Some (Inr [vase_out])"
  using literal_term_search[of "''vase''" demo_store 40 refuse_str]
  by (simp add: literal_def metachars_def not_down_demo collections_demo vase_occurs
        vase_not_in_basket respond_vase)

lemma vae_not_in_vase: "\<not> q_occurs ''Va.e'' vase_doc" 
  by (simp add: q_occurs_def text_vase ci_substring_def lower_def to_lower_def sublist_code)

lemma get_vase:
  "get vase_doc ''name'' = Some (VStr ''Terracotta Vase'')"
  "get vase_doc ''description'' = None"
  "get vase_doc ''category'' = Some (VStr ''Ceramics'')"
  "get vase_doc ''location'' = None"
  "get vase_doc ''price'' = Some (VInt 1299)"
  by (simp_all add: get_def vase_doc_def)

lemma get_basket:
  "get basket_doc ''name'' = Some (VStr ''Bamboo Basket'')"
  "get basket_doc ''description'' = None"
  "get basket_doc ''category'' = Some (VStr ''Home'')"
  "get basket_doc ''location'' = Some (VStr ''Assam'')"
  "get basket_doc ''price'' = Some (VFloat 899)"
  by (simp_all add: get_def basket_doc_def)

lemma compile_vae:
  "compile_regex ''Va.e'' = Some \<lparr>anchored_start = False,
     atoms = [Lit CHR ''V'', Lit CHR ''a'', AnyChar, Lit CHR ''e''], anchored_end = False\<rparr>"
  by (simp add: compile_regex_def metachars_def)

lemma vae_matches_vase: "matches (filter_q (Some ''Va.e'') None None None) vase_doc"
  by (simp add: matches_def filter_q_def get_vase compile_vae regex_search_def to_lower_def newline_def)

lemma vae_not_matches_basket: "\<not> matches (filter_q (Some ''Va.e'') None None None) basket_doc"
  by (simp add: matches_def filter_q_def get_basket compile_vae regex_search_def to_lower_def newline_def)

lemma vae_supported: "supported (filter_q (Some ''Va.e'') None None None)"
  by (simp add: supported_def filter_q_def compile_vae)

text \<open>
  Counterexample to C1 as stated: the term \<open>Va.e\<close> occurs in no field of the vase,
  yet the search returns the vase, because the dot stands for any character.
\<close>

theorem wildcard_term_counterexample:
  "list_products refuse_str (Some demo_store) (Some ''Va.e'') None None None None =
     Some (Inr [vase_out]) \<and>
   \<not> q_occurs ''Va.e'' vase_doc"
  using respond_vase
  by (simp add: list_products_def query_valid_def get_documents_def not_down_demo vae_supported
      collections_demo vae_matches_vase vae_not_matches_basket respond_def vae_not_in_vase)


lemma project_all_length: "project_all fs ds = Inr out \<Longrightarrow> length out = length ds"
  by (induction ds arbitrary: out) (auto split: sum.splits)

lemma filter_q_empty:
  "filter_q (Some []) c lo hi = filter_q None c lo hi"
  "filter_q q (Some []) lo hi = filter_q q None lo hi"
  by (simp_all add: filter_q_def)

text \<open>
  C9. An empty \<open>q\<close> or an empty \<open>category\<close> is treated as an absent one: the search
  gives the same result as without the parameter.
\<close>

theorem empty_term_is_absent:
  "list_products fs db (Some []) category lo hi n = list_products fs db None category lo hi n \<and>
   list_products fs db q (Some []) lo hi n = list_products fs db q None lo hi n"
  unfolding list_products_def filter_q_empty by simp

lemma matches_no_criteria: "matches (filter_q None None None None) d"
  by (simp add: matches_def filter_q_def)

lemma supported_no_criteria: "supported (filter_q None None None None)"
  by (simp add: supported_def filter_q_def)

lemma list_all_demo:
  "1 \<le> n \<Longrightarrow> n \<le> 100 \<Longrightarrow> list_products refuse_str (Some demo_store) None None None None (Some n) =
     respond refuse_str (take (nat n) [vase_doc, basket_doc])"
  by (simp add: list_products_selected not_down_demo supported_no_criteria query_valid_def
      matches_no_criteria collections_demo)

text \<open>Witness for C9, on the sample store: both records are listed.\<close>

theorem empty_term_is_absent_witness:
  "list_products refuse_str (Some demo_store) (Some []) None None None (Some 40) =
     list_products refuse_str (Some demo_store) None None None None (Some 40) \<and>
   list_products refuse_str (Some demo_store) None (Some []) None None (Some 40) =
     list_products refuse_str (Some demo_store) None None None None (Some 40) \<and>
   list_products refuse_str (Some demo_store) None None None None (Some 40) =
     respond refuse_str [vase_doc, basket_doc]"
  using empty_term_is_absent[of refuse_str "Some demo_store" None None None "Some 40" None]
  by (simp add: list_all_demo)

lemma rejected_min: "x < 0 \<Longrightarrow> list_products fs db q c (Some x) hi n = Some (Inl RequestValidationError)"
  by (simp add: list_products_def query_valid_def)

lemma rejected_max: "x < 0 \<Longrightarrow> list_products fs db q c lo (Some x) n = Some (Inl RequestValidationError)"
  by (simp add: list_products_def query_valid_def)

lemma rejected_limit:
  "l < 1 \<or> 100 < l \<Longrightarrow> list_products fs db q c lo hi (Some l) = Some (Inl RequestValidationError)"
  by (auto simp: list_products_def query_valid_def)

lemma accepted_not_rejected:
  "query_valid lo hi l \<Longrightarrow> list_products fs db q c lo hi (Some l) \<noteq> Some (Inl RequestValidationError)"
  by (simp add: list_products_def split: option.splits sum.splits)

lemma capped:
  "list_products fs db q c lo hi (Some l) = Some (Inr out) \<Longrightarrow> length out \<le> nat l"
  by (auto simp: list_products_def get_documents_def split: option.splits sum.splits if_splits
       dest!: project_all_length)

lemma default_limit: "list_products fs db q c lo hi None = list_products fs db q c lo hi (Some 40)"
  by (simp add: list_products_def)

text \<open>
  C7. A negative \<open>min_price\<close> or \<open>max_price\<close>, a \<open>limit\<close> of 0 and a \<open>limit\<close> of 101
  are rejected with a client error whatever the store handle is (absent, out of reach
  or in any state), so before any query; a \<open>limit\<close> of 100 is accepted and the result
  has at most 100 records; an omitted \<open>limit\<close> is 40.
\<close>

theorem out_of_range_rejected:
  "(x < 0 \<longrightarrow> list_products fs db q c (Some x) hi n = Some (Inl RequestValidationError)) \<and>
   (x < 0 \<longrightarrow> list_products fs db q c lo (Some x) n = Some (Inl RequestValidationError)) \<and>
   list_products fs db q c lo hi (Some 0) = Some (Inl RequestValidationError) \<and>
   list_products fs db q c lo hi (Some 101) = Some (Inl RequestValidationError) \<and>
   client_error RequestValidationError \<and>
   (query_valid lo hi 40 \<longrightarrow>
      list_products fs db q c lo hi (Some 100) \<noteq> Some (Inl RequestValidationError)) \<and>
   (list_products fs db q c lo hi (Some 100) = Some (Inr out) \<longrightarrow> length out \<le> 100) \<and>
   list_products fs db q c lo hi None = list_products fs db q c lo hi (Some 40)"
proof -
  have "query_valid lo hi 40 \<Longrightarrow> query_valid lo hi 100"
    by (simp add: query_valid_def)
  moreover have "list_products fs db q c lo hi (Some 100) = Some (Inr out) \<Longrightarrow> length out \<le> 100"
    using capped[of fs db q c lo hi 100 out] by simp
  ultimately show ?thesis
    using rejected_min[of x fs db q c hi n] rejected_max[of x fs db q c lo n]
      rejected_limit[of 0 fs db q c lo hi] rejected_limit[of 101 fs db q c lo hi]
      accepted_not_rejected[of lo hi 100 fs db q c] default_limit[of fs db q c lo hi]
    by (simp add: client_error_def)
qed

text \<open>Witness for C7, on the sample store.\<close>

theorem out_of_range_rejected_witness:
  "(-1 :: real) < 0 \<and>
   list_products refuse_str (Some demo_store) None None (Some (-1)) None None =
     Some (Inl RequestValidationError) \<and>
   list_products refuse_str (Some demo_store) None None None (Some (-1)) None =
     Some (Inl RequestValidationError) \<and>
   list_products refuse_str (Some demo_store) None None None None (Some 0) =
     Some (Inl RequestValidationError) \<and>
   list_products refuse_str (Some demo_store) None None None None (Some 101) =
     Some (Inl RequestValidationError) \<and>
   query_valid None None 40 \<and>
   list_products refuse_str (Some demo_store) None None None None (Some 100) =
     Some (Inr [vase_out, basket_out]) \<and>
   length [vase_out, basket_out] \<le> 100 \<and>
   list_products refuse_str (Some demo_store) None None None None None =
     Some (Inr [vase_out, basket_out])"
  using out_of_range_rejected[where x = "-1" and fs = refuse_str and db = "Some demo_store"
      and q = None and c = None and lo = None and hi = None and n = None
      and out = "[vase_out, basket_out]"]
  by (simp add: list_all_demo query_valid_def respond_demo)


lemma matches_category:
  "literal c \<Longrightarrow> c \<noteq> [] \<Longrightarrow>
     matches (filter_q None (Some c) None None) d \<longleftrightarrow> category_is_or_line c d"
  using regex_category_holds[of c d] by (simp add: matches_def filter_q_def)

lemma supported_category:
  "literal c \<Longrightarrow> supported (filter_q None (Some c) None None)"
  using compile_anchored[of c] by (simp add: supported_def filter_q_def)

text \<open>
  C2, as amended. The category reaches the store as the case-insensitive regular
  expression \<open>^c$\<close>. For a non-empty \<open>c\<close> made of literal characters only, the search
  with \<open>category=c\<close> alone selects exactly the stored records whose category is a string
  equal to \<open>c\<close>, case-insensitively, or to \<open>c\<close> followed by one final line feed (where
  \<open>$\<close> also holds); no other record that merely contains \<open>c\<close> is selected. The response
  holds the first \<open>limit\<close> selected records.
\<close>

theorem literal_category_search:
  assumes "literal c" and "c \<noteq> []" and "\<not> down s" and "1 \<le> n" and "n \<le> 100"
  shows "list_products fs (Some s) None (Some c) None None (Some n) =
           respond fs (take (nat n) (filter (category_is_or_line c) (collections s ''product'')))"
proof -
  have "matches (filter_q None (Some c) None None) = category_is_or_line c"
    using assms(1,2) by (auto simp: fun_eq_iff matches_category)
  moreover have "query_valid None None n"
    using assms(4,5) by (simp add: query_valid_def)
  ultimately show ?thesis
    using assms(1,3) by (simp add: list_products_selected supported_category)
qed

lemma ceramics_vase: "category_is_or_line ''ceramics'' vase_doc"
  by (simp add: category_is_or_line_def text_vase ci_equal_def lower_def to_lower_def)

lemma ceramics_basket: "\<not> category_is_or_line ''ceramics'' basket_doc"
  by (simp add: category_is_or_line_def text_basket ci_equal_def lower_def to_lower_def)

text \<open>
  Witness for C2: the category \<open>ceramics\<close>, in lower case, selects the vase stored under
  \<open>Ceramics\<close> and not the basket.
\<close>

theorem literal_category_search_witness:
  "literal ''ceramics'' \<and> ''ceramics'' \<noteq> [] \<and> \<not> down demo_store \<and> (1::int) \<le> 40 \<and> (40::int) \<le> 100 \<and>
   list_products refuse_str (Some demo_store) None (Some ''ceramics'') None None (Some 40) =
     Some (Inr [vase_out])"
  using literal_category_search[of "''ceramics''" demo_store 40 refuse_str]
  by (simp add: literal_def metachars_def not_down_demo collections_demo ceramics_vase
        ceramics_basket respond_vase)

lemma compile_cermics:
  "compile_regex ''^Cer.mics$'' = Some \<lparr>anchored_start = True,
     atoms = [Lit CHR ''C'', Lit CHR ''e'', Lit CHR ''r'', AnyChar, Lit CHR ''m'', Lit CHR ''i'',
              Lit CHR ''c'', Lit CHR ''s''], anchored_end = True\<rparr>"
  by (simp add: compile_regex_def metachars_def)

lemma cermics_matches_vase: "matches (filter_q None (Some ''Cer.mics'') None None) vase_doc"
  using compile_cermics
  by (simp add: matches_def filter_q_def get_vase regex_search_def to_lower_def newline_def)

lemma cermics_not_matches_basket:
  "\<not> matches (filter_q None (Some ''Cer.mics'') None None) basket_doc"
  using compile_cermics
  by (simp add: matches_def filter_q_def get_basket regex_search_def to_lower_def newline_def)

lemma cermics_supported: "supported (filter_q None (Some ''Cer.mics'') None None)"
  using compile_cermics by (simp add: supported_def filter_q_def)

lemma cermics_not_vase: "\<not> category_is ''Cer.mics'' vase_doc"
  by (simp add: category_is_def text_vase ci_equal_def lower_def to_lower_def)

text \<open>
  Counterexample to C2 as stated: the category of the vase, \<open>Ceramics\<close>, does not equal
  \<open>Cer.mics\<close> in any case, yet the search with \<open>category=Cer.mics\<close> returns the vase.
\<close>

theorem wildcard_category_counterexample:
  "list_products refuse_str (Some demo_store) None (Some ''Cer.mics'') None None None =
     Some (Inr [vase_out]) \<and>
   \<not> category_is ''Cer.mics'' vase_doc"
  using respond_vase
  by (simp add: list_products_def query_valid_def get_documents_def not_down_demo
      cermics_supported collections_demo cermics_matches_vase cermics_not_matches_basket
      respond_def cermics_not_vase)

lemma matches_price:
  "lo \<noteq> None \<or> hi \<noteq> None \<Longrightarrow>
     matches (filter_q None None lo hi) d \<longleftrightarrow>
       (case lo of None \<Rightarrow> True | Some l \<Rightarrow> price_at_least l d) \<and>
       (case hi of None \<Rightarrow> True | Some h \<Rightarrow> price_at_most h d)"
  using range_holds[of lo hi d] by (auto simp: matches_def filter_q_def simp del: cond_holds.simps)

lemma supported_price: "supported (filter_q None None lo hi)"
  by (simp add: supported_def filter_q_def)

lemma between_iff: "price_between lo hi d \<longleftrightarrow> price_at_least lo d \<and> price_at_most hi d"
  by (simp add: price_between_def price_at_least_def price_at_most_def split: option.splits)

text \<open>
  C6. For price bounds \<open>0 \<le> lo \<le> hi\<close>, the search with \<open>min_price=lo\<close> and
  \<open>max_price=hi\<close> selects exactly the stored records whose price \<open>p\<close> satisfies
  \<open>lo \<le> p \<le> hi\<close>; with \<open>min_price\<close> alone those with \<open>lo \<le> p\<close>, with \<open>max_price\<close> alone
  those with \<open>p \<le> hi\<close>. The response holds the selected records, up to the cap of
  \<open>limit\<close> records.
\<close>

theorem price_range_search:
  assumes "\<not> down s" and "1 \<le> n" and "n \<le> 100" and "0 \<le> lo" and "lo \<le> hi"
  shows "list_products fs (Some s) None None (Some lo) (Some hi) (Some n) =
           respond fs (take (nat n) (filter (price_between lo hi) (collections s ''product''))) \<and>
         list_products fs (Some s) None None (Some lo) None (Some n) =
           respond fs (take (nat n) (filter (price_at_least lo) (collections s ''product''))) \<and>
         list_products fs (Some s) None None None (Some hi) (Some n) =
           respond fs (take (nat n) (filter (price_at_most hi) (collections s ''product'')))"
proof -
  have "matches (filter_q None None (Some lo) (Some hi)) = price_between lo hi"
    by (auto simp: fun_eq_iff matches_price between_iff)
  moreover have "matches (filter_q None None (Some lo) None) = price_at_least lo"
    by (auto simp: fun_eq_iff matches_price)
  moreover have "matches (filter_q None None None (Some hi)) = price_at_most hi"
    by (auto simp: fun_eq_iff matches_price)
  moreover have "query_valid (Some lo) (Some hi) n" "query_valid (Some lo) None n"
    "query_valid None (Some hi) n"
    using assms(2-5) by (simp_all add: query_valid_def)
  ultimately show ?thesis
    using assms(1) by (simp add: list_products_selected supported_price)
qed

lemma price_vase: "price_of vase_doc = Some 1299"
  by (simp add: price_of_def get_vase num_of_def)

lemma price_basket: "price_of basket_doc = Some 899"
  by (simp add: price_of_def get_basket num_of_def)

text \<open>
  Witness for C6, on the sample store: between 1000 and 2000 only the vase (1299), from
  1000 only the vase, up to 2000 the vase and the basket (899).
\<close>

theorem price_range_search_witness:
  "\<not> down demo_store \<and> (1::int) \<le> 40 \<and> (40::int) \<le> 100 \<and> (0::real) \<le> 1000 \<and> (1000::real) \<le> 2000 \<and>
   list_products refuse_str (Some demo_store) None None (Some 1000) (Some 2000) (Some 40) =
     Some (Inr [vase_out]) \<and>
   list_products refuse_str (Some demo_store) None None (Some 1000) None (Some 40) =
     Some (Inr [vase_out]) \<and>
   list_products refuse_str (Some demo_store) None None None (Some 2000) (Some 40) =
     Some (Inr [vase_out, basket_out])"
  using price_range_search[of demo_store 40 1000 2000 refuse_str]
  by (simp add: not_down_demo collections_demo price_between_def price_at_least_def
      price_at_most_def price_vase price_basket respond_vase respond_demo)


lemma find_none:
  "\<not> down s \<Longrightarrow> \<forall>d \<in> set (collections s coll). doc_id d \<noteq> Some i \<Longrightarrow>
     find_one s coll [IdIs i] = Inr None"
  by (simp add: find_one_def find_None_iff matches_def)

text \<open>
  C3. In the single-item lookup, an id string that \<^verbatim>\<open>ObjectId\<close> refuses fails with
  400; an id string it accepts, when the query finds no record under it, fails with
  404. The two signals differ, and 400 is a client error.
\<close>

theorem lookup_invalid_or_unknown:
  "(ObjectId pid = Inl e \<longrightarrow>
      get_product fs (Some s) pid = Inl (HTTPException 400 (Text ''Invalid product id''))) \<and>
   (ObjectId pid = Inr i \<and> \<not> down s \<and> (\<forall>d \<in> set (collections s ''product''). doc_id d \<noteq> Some i) \<longrightarrow>
      get_product fs (Some s) pid = Inl (HTTPException 404 (Text ''Product not found''))) \<and>
   client_error (HTTPException 400 (Text ''Invalid product id'')) \<and>
   HTTPException 400 (Text ''Invalid product id'') \<noteq> HTTPException 404 (Text ''Product not found'')"
  using find_none[of s "''product''" i]
  by (auto simp: get_product_def client_error_def)

lemma ObjectId_not_an_id: "ObjectId ''not-an-id'' = Inl InvalidId"
  by (simp add: ObjectId_def)

lemma ObjectId_1: "ObjectId ''000000000000000000000001'' = Inr vase_id"
  by (simp add: vase_id_def new_oid_def upt_rec ObjectId_def hex_val_def is_space_def)

lemma ObjectId_2: "ObjectId ''000000000000000000000002'' = Inr basket_id"
  by (simp add: basket_id_def new_oid_def upt_rec ObjectId_def hex_val_def is_space_def)

lemma collections_empty: "collections empty_store coll = []"
  by (simp add: empty_store_def products_of_def)

lemma not_down_empty: "\<not> down empty_store"
  by (simp add: empty_store_def)

text \<open>
  Witness for C3: the malformed id \<open>not-an-id\<close> gives 400, a well-formed id on the empty
  store gives 404.
\<close>

theorem lookup_invalid_or_unknown_witness:
  "ObjectId ''not-an-id'' = Inl InvalidId \<and>
   get_product refuse_str (Some empty_store) ''not-an-id'' =
     Inl (HTTPException 400 (Text ''Invalid product id'')) \<and>
   ObjectId ''000000000000000000000001'' = Inr vase_id \<and> \<not> down empty_store \<and>
   get_product refuse_str (Some empty_store) ''000000000000000000000001'' =
     Inl (HTTPException 404 (Text ''Product not found''))"
  using lookup_invalid_or_unknown[where pid = "''not-an-id''" and e = InvalidId
      and fs = refuse_str and s = empty_store and i = vase_id]
    lookup_invalid_or_unknown[where pid = "''000000000000000000000001''" and e = InvalidId
      and fs = refuse_str and s = empty_store and i = vase_id]
  by (simp add: ObjectId_not_an_id ObjectId_1 collections_empty not_down_empty)


lemma doc_id_vase: "doc_id vase_doc = Some vase_id"
  by (simp add: vase_doc_def)

lemma not_empty_vase: "\<not> is_empty vase_doc"
  by (simp add: is_empty_def vase_doc_def)

lemma single_id_vase: "single_id vase_doc = ''000000000000000000000001''"
  using listed_id_vase by (simp add: single_id_def listed_id_def doc_id_vase)

lemma find_vase: "find_one demo_store ''product'' [IdIs vase_id] = Inr (Some vase_doc)"
  by (simp add: find_one_def not_down_demo collections_demo matches_def doc_id_vase)

lemma get_product_vase:
  "get_product refuse_str (Some demo_store) ''000000000000000000000001'' = Inr vase_out"
  by (simp add: get_product_def ObjectId_1 find_vase not_empty_vase single_id_vase
      product_out_vase vase_out_id)

lemma down_down: "down down_store"
  by (simp add: down_store_def)

lemma project_all_total:
  "\<forall>d \<in> set ds. \<not> isl (product_out fs (listed_id d) d) \<Longrightarrow> \<exists>out. project_all fs ds = Inr out"
  by (induction ds) (auto split: sum.splits)

lemma ProductOut_init_Inr:
  "ProductOut_init i n d p c l im st = Inr r \<longleftrightarrow>
     (\<exists>n' d' c' l' im'. str_field n = Some n' \<and> opt_str_field d = Some d' \<and>
        str_field c = Some c' \<and> opt_str_field l = Some l' \<and> opt_str_field im = Some im' \<and>
        r = \<lparr>out_id = i, out_name = n', out_description = d', out_price = p,
             out_category = c', out_location = l', out_image = im', out_in_stock = st\<rparr>)"
  unfolding ProductOut_init_def
  by (cases "str_field n"; cases "opt_str_field d"; cases "str_field c";
      cases "opt_str_field l"; cases "opt_str_field im") auto

lemma product_out_Inr:
  "product_out fs i d = Inr r \<longleftrightarrow>
     (\<exists>p. py_float fs (get_or d ''price'' (VInt 0)) = Inr p \<and>
        ProductOut_init i (get_or d ''name'' (VStr [])) (get d ''description'') p
            (get_or d ''category'' (VStr [])) (get d ''location'') (get d ''image'')
            (py_bool (get_or d ''in_stock'' (VBool True))) = Inr r)"
  unfolding product_out_def
  by (cases "py_float fs (get_or d ''price'' (VInt 0))") auto

lemma float_of_int_small: "\<bar>n\<bar> \<le> 2 ^ 53 \<Longrightarrow> float_of_int n = Inr (real_of_int n)"
  by (simp add: float_of_int_def Let_def nat_le_iff del: bit_length.simps)

text \<open>Beyond \<open>2^53\<close> the conversion rounds: a tie goes to the even neighbour.\<close>

lemma float_of_int_rounds:
  "float_of_int 9007199254740993 = Inr 9007199254740992"
  "float_of_int 9007199254740995 = Inr 9007199254740996"
  by (simp_all add: float_of_int_def Let_def)

lemma float_of_int_total:
  assumes "- (2 ^ 63) \<le> n" and "n < 2 ^ 63"
  shows "\<exists>x. float_of_int n = Inr x"
proof -
  have "nat \<bar>n\<bar> \<le> 2 ^ 63" using assms by (simp add: nat_le_iff)
  moreover have "(2::nat) ^ 63 < 2 ^ 1024 - 2 ^ 970" by simp
  ultimately have "\<not> 2 ^ 1024 - 2 ^ 970 \<le> nat \<bar>n\<bar>" by linarith
  then show ?thesis
    unfolding float_of_int_def Let_def by (simp del: bit_length.simps)
qed

lemma float_of_int_zero: "float_of_int 0 = Inr 0"
  by (simp add: float_of_int_def)

lemma py_float_zero: "py_float fs (VInt 0) = Inr 0"
  by (simp add: float_of_int_zero)

lemma py_float_number: "is_number fs v \<Longrightarrow> \<exists>x. py_float fs v = Inr x"
  by (cases v) (auto simp: float_of_int_total)

lemma typed_str:
  "absent_or is_str (get d k) \<Longrightarrow> \<exists>s. str_field (get_or d k (VStr [])) = Some s"
  by (cases "get d k") (auto simp: absent_or_def get_or_def elim: is_str.elims)

lemma typed_opt_str: "absent_or is_opt_str v \<Longrightarrow> \<exists>x. opt_str_field v = Some x"
  by (cases v) (auto simp: absent_or_def elim: is_opt_str.elims)

lemma typed_price:
  "absent_or (is_number fs) (get d k) \<Longrightarrow> \<exists>x. py_float fs (get_or d k (VInt 0)) = Inr x"
  by (cases "get d k") (auto simp: absent_or_def get_or_def float_of_int_zero py_float_number)


lemma product_out_total:
  assumes "typed_fields fs d"
  shows "\<exists>p. product_out fs i d = Inr p"
proof -
  from assms obtain n' c' where s:
    "str_field (get_or d ''name'' (VStr [])) = Some n'"
    "str_field (get_or d ''category'' (VStr [])) = Some c'"
    unfolding typed_fields_def using typed_str by blast
  from assms obtain d' l' im' where o:
    "opt_str_field (get d ''description'') = Some d'"
    "opt_str_field (get d ''location'') = Some l'"
    "opt_str_field (get d ''image'') = Some im'"
    unfolding typed_fields_def using typed_opt_str by blast
  from assms obtain p where "py_float fs (get_or d ''price'' (VInt 0)) = Inr p"
    unfolding typed_fields_def using typed_price by blast
  with s o show ?thesis
    unfolding product_out_Inr ProductOut_init_Inr by simp
qed

lemma product_out_fields:
  assumes "product_out fs i d = Inr p"
  shows "out_id p = i"
    and "py_float fs (get_or d ''price'' (VInt 0)) = Inr (out_price p)"
    and "out_in_stock p = py_bool (get_or d ''in_stock'' (VBool True))"
    and "str_field (get_or d ''category'' (VStr [])) = Some (out_category p)"
    and "str_field (get_or d ''name'' (VStr [])) = Some (out_name p)"
    and "opt_str_field (get d ''description'') = Some (out_description p)"
    and "opt_str_field (get d ''location'') = Some (out_location p)"
    and "opt_str_field (get d ''image'') = Some (out_image p)"
  using assms unfolding product_out_Inr ProductOut_init_Inr by auto

lemma get_or_absent: "get d k = None \<Longrightarrow> get_or d k v = v"
  by (simp add: get_or_def)

lemma map_of_filter_key:
  "map_of (filter (\<lambda>e. fst e \<noteq> k) xs) k' = (if k' = k then None else map_of xs k')"
  by (induction xs) auto

lemma get_without: "get (without k d) k' = (if k' = k then None else get d k')"
  by (simp add: get_def without_def map_of_filter_key)

lemma typed_fields_without: "typed_fields fs d \<Longrightarrow> typed_fields fs (without k d)"
  by (simp add: typed_fields_def get_without absent_or_def)

lemma typed_fields_none: "typed_fields fs \<lparr>doc_id = x, entries = []\<rparr>"
  by (simp add: typed_fields_def get_def absent_or_def)

lemma read_path_parts:
  assumes "typed_fields fs d"
  shows "\<exists>p. product_out fs i d = Inr p \<and> out_id p = i \<and>
           py_float fs (get_or d ''price'' (VInt 0)) = Inr (out_price p) \<and>
           (get d ''price'' = None \<longrightarrow> out_price p = 0) \<and>
           out_in_stock p = py_bool (get_or d ''in_stock'' (VBool True)) \<and>
           (get d ''in_stock'' = None \<longrightarrow> out_in_stock p) \<and>
           (get d ''category'' = None \<longrightarrow> out_category p = []) \<and>
           (get d ''name'' = None \<longrightarrow> out_name p = []) \<and>
           (get d ''description'' = None \<longrightarrow> out_description p = None) \<and>
           (get d ''location'' = None \<longrightarrow> out_location p = None) \<and>
           (get d ''image'' = None \<longrightarrow> out_image p = None)"
    and "doc_id d = Some j \<longrightarrow> listed_id d = str_oid j \<and> single_id d = str_oid j"
    and "(\<forall>x \<in> set ds. typed_fields fs x) \<longrightarrow>
           (\<exists>out. project_all fs ds = Inr out \<and> length out = length ds)"
    and "\<exists>p. product_out fs i (without k d) = Inr p"
proof -
  obtain p where p: "product_out fs i d = Inr p"
    using assms product_out_total by blast
  note f = product_out_fields[OF p]
  have g: "get d ''price'' = None \<longrightarrow> out_price p = 0"
    "get d ''in_stock'' = None \<longrightarrow> out_in_stock p"
    "get d ''category'' = None \<longrightarrow> out_category p = []"
    "get d ''name'' = None \<longrightarrow> out_name p = []"
    "get d ''description'' = None \<longrightarrow> out_description p = None"
    "get d ''location'' = None \<longrightarrow> out_location p = None"
    "get d ''image'' = None \<longrightarrow> out_image p = None"
    using f(2) f(3) f(4) f(5) f(6) f(7) f(8) by (auto simp: get_or_absent float_of_int_zero)
  have "product_out fs i d = Inr p \<and> out_id p = i \<and>
           py_float fs (get_or d ''price'' (VInt 0)) = Inr (out_price p) \<and>
           (get d ''price'' = None \<longrightarrow> out_price p = 0) \<and>
           out_in_stock p = py_bool (get_or d ''in_stock'' (VBool True)) \<and>
           (get d ''in_stock'' = None \<longrightarrow> out_in_stock p) \<and>
           (get d ''category'' = None \<longrightarrow> out_category p = []) \<and>
           (get d ''name'' = None \<longrightarrow> out_name p = []) \<and>
           (get d ''description'' = None \<longrightarrow> out_description p = None) \<and>
           (get d ''location'' = None \<longrightarrow> out_location p = None) \<and>
           (get d ''image'' = None \<longrightarrow> out_image p = None)"
    using p f(1) f(2) f(3) g by (intro conjI)
  then show "\<exists>p. product_out fs i d = Inr p \<and> out_id p = i \<and>
           py_float fs (get_or d ''price'' (VInt 0)) = Inr (out_price p) \<and>
           (get d ''price'' = None \<longrightarrow> out_price p = 0) \<and>
           out_in_stock p = py_bool (get_or d ''in_stock'' (VBool True)) \<and>
           (get d ''in_stock'' = None \<longrightarrow> out_in_stock p) \<and>
           (get d ''category'' = None \<longrightarrow> out_category p = []) \<and>
           (get d ''name'' = None \<longrightarrow> out_name p = []) \<and>
           (get d ''description'' = None \<longrightarrow> out_description p = None) \<and>
           (get d ''location'' = None \<longrightarrow> out_location p = None) \<and>
           (get d ''image'' = None \<longrightarrow> out_image p = None)"
    by (rule exI)
next
  show "doc_id d = Some j \<longrightarrow> listed_id d = str_oid j \<and> single_id d = str_oid j"
    by (simp add: listed_id_def single_id_def)
next
  show "(\<forall>x \<in> set ds. typed_fields fs x) \<longrightarrow>
           (\<exists>out. project_all fs ds = Inr out \<and> length out = length ds)"
  proof
    assume a: "\<forall>x \<in> set ds. typed_fields fs x"
    have "\<forall>x \<in> set ds. \<not> isl (product_out fs (listed_id x) x)"
    proof
      fix x assume "x \<in> set ds"
      with a have "typed_fields fs x" by blast
      then obtain p where "product_out fs (listed_id x) x = Inr p"
        using product_out_total by blast
      then show "\<not> isl (product_out fs (listed_id x) x)" by simp
    qed
    then obtain out where "project_all fs ds = Inr out"
      using project_all_total by blast
    then show "\<exists>out. project_all fs ds = Inr out \<and> length out = length ds"
      using project_all_length by blast
  qed
next
  show "\<exists>p. product_out fs i (without k d) = Inr p"
    using typed_fields_without[OF assms] by (rule product_out_total)
qed

text \<open>
  C5, as amended. For every stored record whose present fields have the types of the
  data model (a string for the name and the category; a string or null for the
  description, the location and the image; for the price a 64-bit integer, a double, a
  boolean or a string \<^verbatim>\<open>float\<close> accepts), whichever of its fields are missing, the read
  path of both handlers produces one \<^verbatim>\<open>ProductOut\<close>, and a listing one for each
  record: the price is \<^verbatim>\<open>float\<close> of the stored price and 0 when absent,
  \<^verbatim>\<open>in_stock\<close> is the truth value of the stored one and true when absent, the category
  and the name are empty when absent, the other fields absent when absent, and the
  identifier is the string of the record's ObjectId. Taking any field away from such a
  record leaves it readable. Nothing is promised of a record with a present field of
  another type.
\<close>

theorem read_path_defaults:
  assumes "typed_fields fs d"
  shows "(\<exists>p. product_out fs i d = Inr p \<and> out_id p = i \<and>
           py_float fs (get_or d ''price'' (VInt 0)) = Inr (out_price p) \<and>
           (get d ''price'' = None \<longrightarrow> out_price p = 0) \<and>
           out_in_stock p = py_bool (get_or d ''in_stock'' (VBool True)) \<and>
           (get d ''in_stock'' = None \<longrightarrow> out_in_stock p) \<and>
           (get d ''category'' = None \<longrightarrow> out_category p = []) \<and>
           (get d ''name'' = None \<longrightarrow> out_name p = []) \<and>
           (get d ''description'' = None \<longrightarrow> out_description p = None) \<and>
           (get d ''location'' = None \<longrightarrow> out_location p = None) \<and>
           (get d ''image'' = None \<longrightarrow> out_image p = None)) \<and>
         (doc_id d = Some j \<longrightarrow> listed_id d = str_oid j \<and> single_id d = str_oid j) \<and>
         ((\<forall>x \<in> set ds. typed_fields fs x) \<longrightarrow>
           (\<exists>out. project_all fs ds = Inr out \<and> length out = length ds)) \<and>
         (\<exists>p. product_out fs i (without k d) = Inr p) \<and>
         typed_fields fs \<lparr>doc_id = x, entries = []\<rparr>"
  using read_path_parts(1)[OF assms, of i] read_path_parts(2)[OF assms, of j]
    read_path_parts(3)[OF assms, of ds] read_path_parts(4)[OF assms, of i k]
    typed_fields_none[of fs x]
  by (intro conjI)

lemma typed_fields_vase: "typed_fields refuse_str vase_doc"
  by (simp add: typed_fields_def absent_or_def get_vase get_def vase_doc_def)

lemma typed_fields_basket: "typed_fields refuse_str basket_doc"
  by (simp add: typed_fields_def absent_or_def get_basket get_def basket_doc_def)

lemma get_vase_absent:
  "get vase_doc ''in_stock'' = None" "get vase_doc ''image'' = None"
  by (simp_all add: get_def vase_doc_def)

lemma str_oid_vase: "str_oid vase_id = ''000000000000000000000001''"
  by (simp add: vase_id_def str_oid_def new_oid_def upt_rec hex_digit_def)

lemma without_price_vase:
  "product_out refuse_str ''000000000000000000000001'' (without ''price'' vase_doc) =
     Inr (vase_out\<lparr>out_price := 0\<rparr>)"
  by (simp add: product_out_def without_def vase_doc_def vase_out_def get_or_def get_def
      ProductOut_init_def float_of_int_def)

text \<open>
  Witness for C5: the vase is stored without description, location, image and
  \<^verbatim>\<open>in_stock\<close>, with the integer price 1299; it is read as \<open>vase_out\<close>, in stock, at
  1299, and without its price at 0; the listing of the sample store has two entries.
\<close>

theorem read_path_defaults_witness:
  "typed_fields refuse_str vase_doc \<and>
   product_out refuse_str ''000000000000000000000001'' vase_doc = Inr vase_out \<and>
   get vase_doc ''in_stock'' = None \<and> out_in_stock vase_out \<and>
   get vase_doc ''description'' = None \<and> out_description vase_out = None \<and>
   out_price vase_out = 1299 \<and>
   doc_id vase_doc = Some vase_id \<and>
   listed_id vase_doc = ''000000000000000000000001'' \<and>
   single_id vase_doc = ''000000000000000000000001'' \<and>
   typed_fields refuse_str basket_doc \<and>
   project_all refuse_str [vase_doc, basket_doc] = Inr [vase_out, basket_out] \<and>
   product_out refuse_str ''000000000000000000000001'' (without ''price'' vase_doc) =
     Inr (vase_out\<lparr>out_price := 0\<rparr>)"
  using read_path_defaults[of refuse_str vase_doc "''000000000000000000000001''" vase_id
      "[vase_doc, basket_doc]" "''price''" None] respond_demo
  by (simp add: typed_fields_vase typed_fields_basket product_out_vase vase_out_id get_vase_absent
      get_vase doc_id_vase listed_id_vase single_id_vase respond_def without_price_vase
      str_oid_vase split: sum.splits)
     (simp add: vase_out_def)

lemma get_null: "get null_doc ''price'' = Some VNull"
  by (simp add: get_def null_doc_def)

lemma product_out_null: "product_out fs i null_doc = Inl TypeError"
  by (simp add: product_out_def get_or_def get_null)

lemma collections_null: "collections null_store ''product'' = [null_doc]"
  by (simp add: null_store_def products_of_def)

lemma not_down_null: "\<not> down null_store"
  by (simp add: null_store_def)

text \<open>
  Counterexample to C5 as stated: the stored record \<open>null_doc\<close> has a price that is
  null; \<^verbatim>\<open>float(None)\<close> raises, the read path produces no \<^verbatim>\<open>ProductOut\<close> for it, and
  the listing of the store that holds it fails.
\<close>

theorem null_price_read_counterexample:
  "product_out refuse_str (listed_id null_doc) null_doc = Inl TypeError \<and>
   list_products refuse_str (Some null_store) None None None None None =
     Some (Inl (Uncaught TypeError))"
  using list_products_selected[of null_store None None None None 40 refuse_str]
  by (simp add: product_out_null default_limit not_down_null supported_no_criteria
      query_valid_def collections_null matches_no_criteria respond_def)


lemma find_one_member:
  "find_one s coll f = Inr (Some d) \<Longrightarrow> d \<in> set (collections s coll)"
  by (auto simp: find_one_def find_Some_iff split: if_splits)

lemma get_product_Uncaught:
  "get_product fs db pid = Inl (Uncaught x) \<longleftrightarrow>
     (\<exists>s i d. db = Some s \<and> ObjectId pid = Inr i \<and>
        find_one s ''product'' [IdIs i] = Inr (Some d) \<and> \<not> is_empty d \<and>
        product_out fs (single_id d) d = Inl x)"
  by (auto simp: get_product_def split: option.splits sum.splits if_splits)

lemma get_product_typed:
  assumes "\<forall>d \<in> set (collections s ''product''). typed_fields fs d"
    and "get_product fs (Some s) pid = Inl f"
  shows "status_code f = 400 \<or> status_code f = 404"
proof (cases f)
  case (HTTPException c m)
  with assms(2) show ?thesis
    by (auto simp: get_product_def split: option.splits sum.splits if_splits)
next
  case RequestValidationError
  with assms(2) show ?thesis
    by (auto simp: get_product_def split: option.splits sum.splits if_splits)
next
  case (Uncaught x)
  from assms(2)[unfolded Uncaught get_product_Uncaught] obtain i d where
    "find_one s ''product'' [IdIs i] = Inr (Some d)" "product_out fs (single_id d) d = Inl x"
    by auto
  moreover from this(1) have "typed_fields fs d"
    using assms(1) find_one_member by blast
  ultimately show ?thesis
    using product_out_total[of fs d "single_id d"] by auto
qed

text \<open>
  C10, as amended. In the single-item lookup, an exception raised by \<^verbatim>\<open>ObjectId\<close> or
  by the query of the store (a store out of reach, not only a malformed id) becomes the
  client error 400 \<open>Invalid product id\<close>. The handler raises a 500 itself only for the
  unconfigured handle, checked first. The endpoint answers 500 in one more case: an
  exception raised while the found record is projected (lines 134 to 143, outside the
  \<^verbatim>\<open>try\<close> block) leaves the handler uncaught. On a store whose records have present
  fields of the types of the data model that case does not arise, and a configured
  handle fails with 400 or 404 only.
\<close>

theorem lookup_failure_signals:
  "(ObjectId pid = Inl e \<longrightarrow>
      get_product fs (Some s) pid = Inl (HTTPException 400 (Text ''Invalid product id''))) \<and>
   (ObjectId pid = Inr i \<and> find_one s ''product'' [IdIs i] = Inl e \<longrightarrow>
      get_product fs (Some s) pid = Inl (HTTPException 400 (Text ''Invalid product id''))) \<and>
   (down s \<longrightarrow>
      get_product fs (Some s) pid = Inl (HTTPException 400 (Text ''Invalid product id''))) \<and>
   (get_product fs db pid = Inl (HTTPException 500 m) \<longleftrightarrow>
      db = None \<and> m = Text ''Database not available'') \<and>
   (get_product fs db pid = Inl (Uncaught x) \<longleftrightarrow>
      (\<exists>s i d. db = Some s \<and> ObjectId pid = Inr i \<and>
         find_one s ''product'' [IdIs i] = Inr (Some d) \<and> \<not> is_empty d \<and>
         product_out fs (single_id d) d = Inl x)) \<and>
   get_product fs db pid \<noteq> Inl RequestValidationError \<and>
   ((\<forall>d \<in> set (collections s ''product''). typed_fields fs d) \<and>
      get_product fs (Some s) pid = Inl f \<longrightarrow> status_code f = 400 \<or> status_code f = 404)"
proof -
  have a: "ObjectId pid = Inl e \<longrightarrow>
      get_product fs (Some s) pid = Inl (HTTPException 400 (Text ''Invalid product id''))"
    by (simp add: get_product_def)
  have b: "ObjectId pid = Inr i \<and> find_one s ''product'' [IdIs i] = Inl e \<longrightarrow>
      get_product fs (Some s) pid = Inl (HTTPException 400 (Text ''Invalid product id''))"
    by (simp add: get_product_def)
  have c: "down s \<longrightarrow>
      get_product fs (Some s) pid = Inl (HTTPException 400 (Text ''Invalid product id''))"
    by (auto simp: get_product_def find_one_def split: sum.splits)
  have d: "get_product fs db pid = Inl (HTTPException 500 m) \<longleftrightarrow>
      db = None \<and> m = Text ''Database not available''"
    by (auto simp: get_product_def split: option.splits sum.splits if_splits)
  have g: "get_product fs db pid \<noteq> Inl RequestValidationError"
    by (auto simp: get_product_def split: option.splits sum.splits if_splits)
  have h: "(\<forall>d \<in> set (collections s ''product''). typed_fields fs d) \<and>
      get_product fs (Some s) pid = Inl f \<longrightarrow> status_code f = 400 \<or> status_code f = 404"
    using get_product_typed[of s fs pid f] by blast
  show ?thesis
    using a b c d get_product_Uncaught[of fs db pid x] g h by (intro conjI)
qed

lemma ObjectId_blank: "ObjectId [] = Inl InvalidId"
  by (simp add: ObjectId_def)

lemma doc_id_null: "doc_id null_doc = Some vase_id"
  by (simp add: null_doc_def)

lemma find_null: "find_one null_store ''product'' [IdIs vase_id] = Inr (Some null_doc)"
  by (simp add: find_one_def not_down_null collections_null matches_def doc_id_null)

lemma not_empty_null: "\<not> is_empty null_doc"
  by (simp add: is_empty_def null_doc_def)

lemma get_product_null:
  "get_product refuse_str (Some null_store) ''000000000000000000000001'' =
     Inl (Uncaught TypeError)"
  by (simp add: get_product_def ObjectId_1 find_null not_empty_null product_out_null)

text \<open>
  Witness for C10: a malformed id and a store out of reach both give 400, the
  unconfigured handle gives 500, the same id on the sample store in reach gives the
  vase, and on the store that holds a null price it gives an uncaught exception.
\<close>

theorem lookup_failure_signals_witness:
  "ObjectId ''not-an-id'' = Inl InvalidId \<and>
   get_product refuse_str (Some demo_store) ''not-an-id'' =
     Inl (HTTPException 400 (Text ''Invalid product id'')) \<and>
   ObjectId ''000000000000000000000001'' = Inr vase_id \<and>
   find_one down_store ''product'' [IdIs vase_id] = Inl ServerSelectionTimeoutError \<and>
   down down_store \<and>
   get_product refuse_str (Some down_store) ''000000000000000000000001'' =
     Inl (HTTPException 400 (Text ''Invalid product id'')) \<and>
   get_product refuse_str None ''000000000000000000000001'' =
     Inl (HTTPException 500 (Text ''Database not available'')) \<and>
   get_product refuse_str (Some demo_store) ''000000000000000000000001'' = Inr vase_out \<and>
   typed_fields refuse_str vase_doc \<and> typed_fields refuse_str basket_doc \<and>
   status_code (HTTPException 400 (Text ''Invalid product id'')) = 400"
  using lookup_failure_signals[where pid = "''not-an-id''" and e = InvalidId
      and fs = refuse_str and s = demo_store
      and f = "HTTPException 400 (Text ''Invalid product id'')"]
    lookup_failure_signals[where pid = "''000000000000000000000001''"
      and e = ServerSelectionTimeoutError and fs = refuse_str and s = down_store
      and i = vase_id and db = None and m = "Text ''Database not available''"]
  by (simp add: ObjectId_not_an_id ObjectId_1 find_one_def down_down get_product_vase
      typed_fields_vase typed_fields_basket)

text \<open>
  Counterexample to C10 as stated: with a configured store in reach that holds a record
  whose price is null, the lookup of that record ends with an uncaught \<^verbatim>\<open>TypeError\<close>,
  which the framework answers with 500; it is not the check of the handle.
\<close>

theorem null_price_lookup_counterexample:
  "get_product refuse_str (Some null_store) ''000000000000000000000001'' =
     Inl (Uncaught TypeError) \<and>
   status_code (Uncaught TypeError) = 500 \<and>
   Some null_store \<noteq> None \<and> \<not> down null_store"
  by (simp add: get_product_null not_down_null)


lemma hex_digit_val: "k < 16 \<Longrightarrow> hex_val (hex_digit k) = Some k"
proof -
  assume "k < 16"
  then have "k = 0 \<or> k = 1 \<or> k = 2 \<or> k = 3 \<or> k = 4 \<or> k = 5 \<or> k = 6 \<or> k = 7 \<or>
      k = 8 \<or> k = 9 \<or> k = 10 \<or> k = 11 \<or> k = 12 \<or> k = 13 \<or> k = 14 \<or> k = 15"
    by arith
  then show ?thesis
    by (auto simp: hex_digit_def hex_val_def)
qed

lemma hex_digit_not_space: "k < 16 \<Longrightarrow> \<not> is_space (hex_digit k)"
proof -
  assume "k < 16"
  then have "k = 0 \<or> k = 1 \<or> k = 2 \<or> k = 3 \<or> k = 4 \<or> k = 5 \<or> k = 6 \<or> k = 7 \<or>
      k = 8 \<or> k = 9 \<or> k = 10 \<or> k = 11 \<or> k = 12 \<or> k = 13 \<or> k = 14 \<or> k = 15"
    by arith
  then show ?thesis
    by (auto simp: hex_digit_def is_space_def)
qed

lemma byte_split: "word_of_nat (16 * (unat b div 16) + unat b mod 16) = (b :: byte)"
  by simp

lemma byte_high: "unat (b :: byte) div 16 < 16"
proof -
  have "unat b < 256" using unsigned_less[of b, where ?'a = nat] by simp
  then show ?thesis by simp
qed

lemma fromhex_hexlify: "fromhex (hexlify bs) = Some bs"
proof (induction bs)
  case Nil
  then show ?case by simp
next
  case (Cons b bs)
  have "unat b mod 16 < 16" by simp
  then show ?case
    using Cons byte_high[of b] byte_split[of b]
    by (simp add: hex_digit_val hex_digit_not_space)
qed

lemma length_hexlify: "length (hexlify bs) = 2 * length bs"
  by (induction bs) simp_all

lemma length_new_oid: "length (new_oid n) = 12"
  by (simp add: new_oid_def)

lemma ObjectId_str_oid: "ObjectId (str_oid (new_oid n)) = Inr (new_oid n)"
  by (simp add: ObjectId_def str_oid_def length_hexlify length_new_oid fromhex_hexlify)

lemma str_oid_nonempty: "str_oid (new_oid n) \<noteq> []"
proof -
  have "length (str_oid (new_oid n)) = 24"
    by (simp add: str_oid_def length_hexlify length_new_oid)
  then show ?thesis by auto
qed


lemma find_append_new:
  "\<forall>d \<in> set xs. \<not> P d \<Longrightarrow> P y \<Longrightarrow> List.find P (xs @ [y]) = Some y"
  by (induction xs) simp_all

lemma insert_one_fresh:
  assumes "\<not> down s"
    and "\<forall>d \<in> set (collections s coll). doc_id d \<noteq> Some (new_oid (oid_counter s))"
  shows "insert_one s coll es =
           (Inr (new_oid (oid_counter s)),
            s\<lparr>oid_counter := Suc (oid_counter s),
              collections := (collections s)
                (coll := collections s coll @
                   [\<lparr>doc_id = Some (new_oid (oid_counter s)), entries = es\<rparr>])\<rparr>)"
proof -
  have "\<not> list_ex (\<lambda>d. doc_id d = Some (new_oid (oid_counter s))) (collections s coll)"
    using assms(2) by (simp add: list_ex_iff)
  then show ?thesis
    using assms(1) by (simp add: insert_one_def Let_def)
qed

lemma get_dumped:
  "get \<lparr>doc_id = i, entries = model_dump p\<rparr> ''name'' = Some (VStr (p_name p))"
  "get \<lparr>doc_id = i, entries = model_dump p\<rparr> ''description'' = Some (opt_str_value (p_description p))"
  "get \<lparr>doc_id = i, entries = model_dump p\<rparr> ''price'' = Some (VFloat (p_price p))"
  "get \<lparr>doc_id = i, entries = model_dump p\<rparr> ''category'' = Some (VStr (p_category p))"
  "get \<lparr>doc_id = i, entries = model_dump p\<rparr> ''location'' = Some (opt_str_value (p_location p))"
  "get \<lparr>doc_id = i, entries = model_dump p\<rparr> ''image'' = Some (opt_str_value (p_image p))"
  "get \<lparr>doc_id = i, entries = model_dump p\<rparr> ''in_stock'' = Some (VBool (p_in_stock p))"
  by (simp_all add: get_def model_dump_def)

lemma opt_str_field_value: "opt_str_field (Some (opt_str_value x)) = Some x"
  by (cases x) (simp_all add: opt_str_value_def)

lemma product_out_dumped:
  "product_out fs i' \<lparr>doc_id = i, entries = model_dump p\<rparr> =
     Inr \<lparr>out_id = i', out_name = p_name p, out_description = p_description p,
          out_price = p_price p, out_category = p_category p, out_location = p_location p,
          out_image = p_image p, out_in_stock = p_in_stock p\<rparr>"
  by (simp add: product_out_def get_or_def get_dumped ProductOut_init_def opt_str_field_value)

lemma get_product_found:
  assumes "\<not> down s" and "ObjectId pid = Inr i"
    and "List.find (matches [IdIs i]) (collections s ''product'') = Some d"
    and "doc_id d = Some i"
  shows "get_product fs (Some s) pid = (case product_out fs (str_oid i) d of
           Inl e \<Rightarrow> Inl (Uncaught e) | Inr p \<Rightarrow> Inr p)"
  using assms by (simp add: get_product_def find_one_def is_empty_def single_id_def)

lemma Product_init_Inr:
  "Product_init body = Inr p \<longleftrightarrow>
     (\<exists>n d pr c l im st.
        req_str_field (map_of body ''name'') = Some n \<and>
        opt_str_field (map_of body ''description'') = Some d \<and>
        price_field (map_of body ''price'') = Some pr \<and>
        req_str_field (map_of body ''category'') = Some c \<and>
        opt_str_field (map_of body ''location'') = Some l \<and>
        opt_str_field (map_of body ''image'') = Some im \<and>
        opt_bool_field (map_of body ''in_stock'') = Some st \<and>
        p = \<lparr>p_name = n, p_description = d, p_price = pr, p_category = c,
             p_location = l, p_image = im, p_in_stock = st\<rparr>)"
  unfolding Product_init_def
  by (cases "req_str_field (map_of body ''name'')";
      cases "opt_str_field (map_of body ''description'')";
      cases "price_field (map_of body ''price'')";
      cases "req_str_field (map_of body ''category'')";
      cases "opt_str_field (map_of body ''location'')";
      cases "opt_str_field (map_of body ''image'')";
      cases "opt_bool_field (map_of body ''in_stock'')") auto


lemma create_product_fresh:
  assumes "Product_init body = Inr p" and "\<not> down s"
    and "\<forall>d \<in> set (collections s ''product''). doc_id d \<noteq> Some (new_oid (oid_counter s))"
  shows "create_product (Some s) body =
           (Inr (str_oid (new_oid (oid_counter s))),
            Some (s\<lparr>oid_counter := Suc (oid_counter s),
              collections := (collections s)
                (''product'' := collections s ''product'' @
                   [\<lparr>doc_id = Some (new_oid (oid_counter s)), entries = model_dump p\<rparr>])\<rparr>))"
  using assms(1) insert_one_fresh[OF assms(2,3), of "model_dump p"]
  by (simp add: create_product_def create_document_def)

lemma Product_init_body:
  assumes "Product_init body = Inr p"
  shows "map_of body ''name'' = Some (VStr (p_name p))"
    and "map_of body ''category'' = Some (VStr (p_category p))"
    and "opt_str_field (map_of body ''description'') = Some (p_description p)"
    and "opt_str_field (map_of body ''location'') = Some (p_location p)"
    and "opt_str_field (map_of body ''image'') = Some (p_image p)"
    and "price_field (map_of body ''price'') = Some (p_price p)"
    and "opt_bool_field (map_of body ''in_stock'') = Some (p_in_stock p)"
proof -
  from assms obtain n d pr c l im st where h:
    "req_str_field (map_of body ''name'') = Some n"
    "opt_str_field (map_of body ''description'') = Some d"
    "price_field (map_of body ''price'') = Some pr"
    "req_str_field (map_of body ''category'') = Some c"
    "opt_str_field (map_of body ''location'') = Some l"
    "opt_str_field (map_of body ''image'') = Some im"
    "opt_bool_field (map_of body ''in_stock'') = Some st"
    "p = \<lparr>p_name = n, p_description = d, p_price = pr, p_category = c,
             p_location = l, p_image = im, p_in_stock = st\<rparr>"
    unfolding Product_init_Inr by blast
  have r: "\<And>v x. req_str_field v = Some x \<Longrightarrow> v = Some (VStr x)"
    by (auto simp: req_str_field_def split: option.splits elim: str_field.elims)
  show "map_of body ''name'' = Some (VStr (p_name p))" using h(1,8) r by simp
  show "map_of body ''category'' = Some (VStr (p_category p))" using h(4,8) r by simp
  show "opt_str_field (map_of body ''description'') = Some (p_description p)" using h(2,8) by simp
  show "opt_str_field (map_of body ''location'') = Some (p_location p)" using h(5,8) by simp
  show "opt_str_field (map_of body ''image'') = Some (p_image p)" using h(6,8) by simp
  show "price_field (map_of body ''price'') = Some (p_price p)" using h(3,8) by simp
  show "opt_bool_field (map_of body ''in_stock'') = Some (p_in_stock p)" using h(7,8) by simp
qed

lemma price_field_int: "price_field (Some (VInt n)) = Some x \<Longrightarrow> x = real_of_int n"
  by (simp add: price_field_def num_of_def split: if_splits)

text \<open>
  C8. For every valid \<^verbatim>\<open>Product\<close> payload, on a store in reach whose next identifier
  is not yet in use, \<^verbatim>\<open>create_product\<close> returns a non-empty id string, and
  \<^verbatim>\<open>get_product\<close> with that id then returns the payload field by field: the name and
  the category as given, the optional strings as given or absent, the price as a
  float (an integer \<open>n\<close> reads back as the float \<open>n\<close>), \<^verbatim>\<open>in_stock\<close> as given and true
  when absent, and the id just assigned.
\<close>

theorem create_then_get:
  assumes "Product_init body = Inr p" and "\<not> down s"
    and "\<forall>d \<in> set (collections s ''product''). doc_id d \<noteq> Some (new_oid (oid_counter s))"
  shows "\<exists>new_id s'. create_product (Some s) body = (Inr new_id, Some s') \<and> new_id \<noteq> [] \<and>
           get_product fs (Some s') new_id =
             Inr \<lparr>out_id = new_id, out_name = p_name p, out_description = p_description p,
                  out_price = p_price p, out_category = p_category p,
                  out_location = p_location p, out_image = p_image p,
                  out_in_stock = p_in_stock p\<rparr> \<and>
           map_of body ''name'' = Some (VStr (p_name p)) \<and>
           map_of body ''category'' = Some (VStr (p_category p)) \<and>
           opt_str_field (map_of body ''description'') = Some (p_description p) \<and>
           opt_str_field (map_of body ''location'') = Some (p_location p) \<and>
           opt_str_field (map_of body ''image'') = Some (p_image p) \<and>
           (\<forall>n. map_of body ''price'' = Some (VInt n) \<longrightarrow> p_price p = real_of_int n) \<and>
           (\<forall>x. map_of body ''price'' = Some (VFloat x) \<longrightarrow> p_price p = x) \<and>
           (map_of body ''in_stock'' = None \<longrightarrow> p_in_stock p) \<and>
           (\<forall>b. map_of body ''in_stock'' = Some (VBool b) \<longrightarrow> p_in_stock p = b)"
proof -
  define i where "i = new_oid (oid_counter s)"
  define nd where "nd = \<lparr>doc_id = Some i, entries = model_dump p\<rparr>"
  define s' where "s' = s\<lparr>oid_counter := Suc (oid_counter s),
      collections := (collections s)(''product'' := collections s ''product'' @ [nd])\<rparr>"
  have c: "create_product (Some s) body = (Inr (str_oid i), Some s')"
    using create_product_fresh[OF assms] by (simp add: i_def nd_def s'_def)
  have ne: "str_oid i \<noteq> []"
    by (simp add: i_def str_oid_nonempty)
  have "\<forall>d \<in> set (collections s ''product''). \<not> matches [IdIs i] d"
    using assms(3) by (simp add: matches_def i_def)
  moreover have "matches [IdIs i] nd"
    by (simp add: matches_def nd_def)
  ultimately have f: "List.find (matches [IdIs i]) (collections s' ''product'') = Some nd"
    by (simp add: s'_def find_append_new)
  have "\<not> down s'" using assms(2) by (simp add: s'_def)
  moreover have "ObjectId (str_oid i) = Inr i"
    by (simp add: i_def ObjectId_str_oid)
  moreover have "doc_id nd = Some i" by (simp add: nd_def)
  ultimately have g: "get_product fs (Some s') (str_oid i) =
      Inr \<lparr>out_id = str_oid i, out_name = p_name p, out_description = p_description p,
           out_price = p_price p, out_category = p_category p,
           out_location = p_location p, out_image = p_image p,
           out_in_stock = p_in_stock p\<rparr>"
    using get_product_found[of s' "str_oid i" i nd fs] f
    by (simp add: nd_def product_out_dumped)
  note b = Product_init_body[OF assms(1)]
  have pi: "\<forall>n. map_of body ''price'' = Some (VInt n) \<longrightarrow> p_price p = real_of_int n"
    using b(6) price_field_int by auto
  have pf: "\<forall>x. map_of body ''price'' = Some (VFloat x) \<longrightarrow> p_price p = x"
    using b(6) by (auto simp: price_field_def num_of_def split: if_splits)
  have sa: "map_of body ''in_stock'' = None \<longrightarrow> p_in_stock p"
    using b(7) by auto
  have sb: "\<forall>x. map_of body ''in_stock'' = Some (VBool x) \<longrightarrow> p_in_stock p = x"
    using b(7) by auto
  show ?thesis
    using c ne g b(1) b(2) b(3) b(4) b(5) pi pf sa sb
    by (intro exI[of _ "str_oid i"] exI[of _ s'] conjI)
qed


lemma Product_init_vase: "Product_init vase_body = Inr vase_product"
  by (simp add: Product_init_def vase_body_def vase_product_def req_str_field_def
      price_field_def num_of_def)

lemma str_oid_0: "str_oid (new_oid 0) = ''000000000000000000000000''"
  by (simp add: str_oid_def new_oid_def upt_rec hex_digit_def)

lemma products_of_upd: "(products_of xs)(''product'' := ys) = products_of ys"
  by (simp add: fun_eq_iff products_of_def)

lemma create_vase:
  "create_product (Some empty_store) vase_body =
     (Inr ''000000000000000000000000'', Some vase_store)"
proof -
  have "\<forall>d \<in> set (collections empty_store ''product''). doc_id d \<noteq> Some (new_oid (oid_counter empty_store))"
    by (simp add: collections_empty)
  from create_product_fresh[OF Product_init_vase not_down_empty this]
  show ?thesis
    by (simp add: empty_store_def vase_store_def stored_vase_def str_oid_0 products_of_upd)
       (simp add: products_of_def)
qed

text \<open>
  Witness for C8, the scenario of the specification: the vase created on the empty
  store gets a 24-character id, and the lookup by that id returns the price 1299 as a
  float, \<^verbatim>\<open>in_stock\<close> true and no description.
\<close>

theorem create_then_get_witness:
  "Product_init vase_body = Inr vase_product \<and> \<not> down empty_store \<and>
   create_product (Some empty_store) vase_body =
     (Inr ''000000000000000000000000'', Some vase_store) \<and>
   get_product refuse_str (Some vase_store) ''000000000000000000000000'' =
     Inr \<lparr>out_id = ''000000000000000000000000'', out_name = ''Terracotta Vase'',
          out_description = None, out_price = 1299, out_category = ''Ceramics'',
          out_location = None, out_image = None, out_in_stock = True\<rparr> \<and>
   map_of vase_body ''price'' = Some (VInt 1299) \<and>
   map_of vase_body ''in_stock'' = None"
  using create_then_get[of vase_body vase_product empty_store refuse_str] create_vase
  by (simp add: Product_init_vase not_down_empty collections_empty)
     (simp add: vase_product_def vase_body_def)


























end
